theory Spec2Isabelle
  imports Complex_Main "HOL-Library.Word"
begin

section \<open>The Janus integrator of REBOUND (src/integrator\_janus.c)\<close>

text \<open>
  The embedding follows \<^verbatim>\<open>integrator_janus.c\<close> statement by statement.

  \<^item> A finite \<^verbatim>\<open>double\<close> is the \<^typ>\<open>real\<close> it stands for. Each floating-point
    operation of the program is the exact operation followed by the rounding \<open>rnd\<close>,
    in the order in which C evaluates it. The conversion of a \<^verbatim>\<open>double\<close> to an
    integer type truncates towards zero, as C's cast does; the conversion of an integer
    to a \<^verbatim>\<open>double\<close> rounds. Infinities and NaN are not part of the model.
  \<^item> The coordinates of \<^verbatim>\<open>struct reb_particle_int\<close> are signed machine integers of a fixed
    width. The struct is declared in \<^verbatim>\<open>rebound.h\<close>, so the width is a type parameter
    \<open>'a\<close>; arithmetic at that width wraps around.
  \<^item> A buffer pointer is \<open>None\<close> (the C \<^verbatim>\<open>NULL\<close>) or \<open>Some\<close> of the cells it points to.
  \<^item> An execution that divides by zero or reaches outside a buffer stops with a
    \<open>fault\<close>; every function that can do so returns \<open>fault + result\<close>.
  \<^item> \<^verbatim>\<open>reb_step\<close>, \<^verbatim>\<open>reb_update_acceleration\<close> and the contents of freshly allocated
    memory are parameters of the functions that use them.
  \<^item> Particle counts are natural numbers. A real value outside the range of the integer
    type it is converted to wraps around: the program leaves it to the caller to keep
    the values in range.
\<close>

subsection \<open>Faults\<close>

datatype fault = Division_by_zero | Invalid_access

definition and_then :: "fault + 'a \<Rightarrow> ('a \<Rightarrow> fault + 'b) \<Rightarrow> fault + 'b" where
  "and_then m f = (case m of Inl e \<Rightarrow> Inl e | Inr v \<Rightarrow> f v)"

text \<open>The division of two doubles, rounded, with the zero divisor made explicit.\<close>

definition fdiv :: "(real \<Rightarrow> real) \<Rightarrow> real \<Rightarrow> real \<Rightarrow> fault + real" where
  "fdiv rnd a b = (if b = 0 then Inl Division_by_zero else Inr (rnd (a / b)))"

text \<open>
  Every arithmetic operation on doubles rounds its exact result to a double. The rounding
  is the parameter \<open>rnd\<close> of every function that computes with doubles, so that the
  functions say where the program rounds and the theorems hold for every rounding.
  \<open>sign_symmetric\<close>: the rounding of \<open>- x\<close> is the negated rounding of \<open>x\<close>, as in
  every rounding mode to nearest.
\<close>

definition sign_symmetric :: "(real \<Rightarrow> real) \<Rightarrow> bool" where
  "sign_symmetric rnd \<longleftrightarrow> (\<forall>x. rnd (- x) = - rnd x)"

text \<open>The cast of a double to an integer type: the fractional part is discarded.\<close>

definition double_to_int :: "real \<Rightarrow> int" where
  "double_to_int v = (if 0 \<le> v then \<lfloor>v\<rfloor> else \<lceil>v\<rceil>)"

subsection \<open>Arrays\<close>

definition read_at :: "'c list \<Rightarrow> nat \<Rightarrow> fault + 'c" where
  "read_at xs i = (if i < length xs then Inr (xs ! i) else Inl Invalid_access)"

definition write_at :: "'c list \<Rightarrow> nat \<Rightarrow> 'c \<Rightarrow> fault + 'c list" where
  "write_at xs i v = (if i < length xs then Inr (xs[i := v]) else Inl Invalid_access)"

text \<open>\<^verbatim>\<open>for (i = 0; i < N; i++)\<close> runs its body over \<open>[0..<N]\<close>.\<close>

primrec for_range :: "nat list \<Rightarrow> (nat \<Rightarrow> 's \<Rightarrow> fault + 's) \<Rightarrow> 's \<Rightarrow> fault + 's" where
  "for_range [] body s = Inr s"
| "for_range (i # js) body s = and_then (body i s) (for_range js body)"

text \<open>\<^verbatim>\<open>memcpy(dst, src, n * sizeof(cell))\<close> on the cells of two distinct arrays.\<close>

definition memcpy :: "'c list \<Rightarrow> 'c list \<Rightarrow> nat \<Rightarrow> fault + 'c list" where
  "memcpy dst src n =
     (if n \<le> length dst \<and> n \<le> length src then Inr (take n src @ drop n dst)
      else Inl Invalid_access)"

text \<open>The cells behind a pointer; \<^verbatim>\<open>NULL\<close> has none.\<close>

definition cells :: "'c list option \<Rightarrow> 'c list" where
  "cells p = (case p of None \<Rightarrow> [] | Some xs \<Rightarrow> xs)"

text \<open>Writing through a pointer leaves the pointer where it is.\<close>

definition store :: "'c list option \<Rightarrow> 'c list \<Rightarrow> 'c list option" where
  "store p xs = (case p of None \<Rightarrow> None | Some _ \<Rightarrow> Some xs)"

text \<open>
  \<^verbatim>\<open>realloc(p, n * sizeof(cell))\<close>: the old cells are kept as far as they fit, the new
  ones hold whatever the allocator left there (\<open>fill\<close>). Allocation is taken to succeed.
\<close>

definition realloc :: "(nat \<Rightarrow> 'c) \<Rightarrow> 'c list option \<Rightarrow> nat \<Rightarrow> 'c list option" where
  "realloc fill p n =
     Some (map (\<lambda>i. if i < length (cells p) then cells p ! i else fill i) [0..<n])"

subsection \<open>Data model\<close>

text \<open>
  \<^verbatim>\<open>struct reb_particle\<close>: the fields this file reads or writes, and the mass. The
  selectors carry a prefix because \<open>x\<close>, \<open>y\<close>, ... are needed as variable names.
\<close>

record reb_particle =
  px :: real
  py :: real
  pz :: real
  pvx :: real
  pvy :: real
  pvz :: real
  pax :: real
  pay :: real
  paz :: real
  pm :: real

text \<open>\<^verbatim>\<open>struct reb_particle_int\<close>, over the type \<open>'w\<close> of its coordinates, which the
  functions below take to be \<open>'a word\<close>.\<close>

record 'w reb_particle_int =
  ix :: 'w
  iy :: 'w
  iz :: 'w
  ivx :: 'w
  ivy :: 'w
  ivz :: 'w

text \<open>
  Modelled from the spec: the enumerations of the integrator selector and of the run
  status are declared in \<^verbatim>\<open>rebound.h\<close>. The constants this file names are constructors;
  every other value of the enumeration is an \<open>OTHER\<close>.
\<close>

datatype reb_integrator =
  REB_INTEGRATOR_WHFAST | REB_INTEGRATOR_JANUS | REB_INTEGRATOR_OTHER nat

datatype reb_status = REB_RUNNING | REB_STATUS_OTHER nat

text \<open>\<^verbatim>\<open>struct reb_simulation_integrator_janus\<close>.\<close>

record 'w reb_simulation_integrator_janus =
  scale :: real
  allocated_N :: nat
  p_prev :: "'w reb_particle_int list option"
  p_curr :: "'w reb_particle_int list option"
  p_next :: "'w reb_particle_int list option"
  p_prevrecalc :: "'w reb_particle_int list option"

text \<open>
  \<^verbatim>\<open>struct reb_simulation\<close>: the fields this file uses, and \<open>console\<close>, the lines
  written to standard output.
\<close>

record 'w reb_simulation =
  sim_t :: real
  sim_dt :: real
  sim_N :: nat
  particles :: "reb_particle list"
  integrator :: reb_integrator
  status :: reb_status
  gravity_ignore_terms :: nat
  ri_janus :: "'w reb_simulation_integrator_janus"
  console :: "string list"

subsection \<open>The fixed-point codec\<close>

definition to_int_cell :: "(real \<Rightarrow> real) \<Rightarrow> real \<Rightarrow> reb_particle \<Rightarrow> ('a::len) word reb_particle_int \<Rightarrow> 'a word reb_particle_int" where
  "to_int_cell rnd int_scale p q =
     q\<lparr>ix := word_of_int (double_to_int (rnd (px p * int_scale))),
       iy := word_of_int (double_to_int (rnd (py p * int_scale))),
       iz := word_of_int (double_to_int (rnd (pz p * int_scale))),
       ivx := word_of_int (double_to_int (rnd (pvx p * int_scale))),
       ivy := word_of_int (double_to_int (rnd (pvy p * int_scale))),
       ivz := word_of_int (double_to_int (rnd (pvz p * int_scale)))\<rparr>"

definition to_int ::
  "(real \<Rightarrow> real) \<Rightarrow> ('a::len) word reb_particle_int list \<Rightarrow> reb_particle list \<Rightarrow> nat \<Rightarrow> real \<Rightarrow> fault + 'a word reb_particle_int list" where
  "to_int rnd psi ps N int_scale =
     for_range [0..<N]
       (\<lambda>i psi. and_then (read_at ps i) (\<lambda>p.
                and_then (read_at psi i) (\<lambda>q.
                write_at psi i (to_int_cell rnd int_scale p q))))
       psi"

definition to_double_cell :: "(real \<Rightarrow> real) \<Rightarrow> real \<Rightarrow> ('a::len) word reb_particle_int \<Rightarrow> reb_particle \<Rightarrow> fault + reb_particle" where
  "to_double_cell rnd int_scale q p =
     and_then (fdiv rnd (rnd (real_of_int (sint (ix q)))) int_scale) (\<lambda>x.
     and_then (fdiv rnd (rnd (real_of_int (sint (iy q)))) int_scale) (\<lambda>y.
     and_then (fdiv rnd (rnd (real_of_int (sint (iz q)))) int_scale) (\<lambda>z.
     Inr (p\<lparr>px := x, py := y, pz := z\<rparr>))))"

definition to_double ::
  "(real \<Rightarrow> real) \<Rightarrow> reb_particle list \<Rightarrow> ('a::len) word reb_particle_int list \<Rightarrow> nat \<Rightarrow> real \<Rightarrow> fault + reb_particle list" where
  "to_double rnd ps psi N int_scale =
     for_range [0..<N]
       (\<lambda>i ps. and_then (read_at psi i) (\<lambda>q.
               and_then (read_at ps i) (\<lambda>p.
               and_then (to_double_cell rnd int_scale q p) (\<lambda>p'.
               write_at ps i p'))))
       ps"

subsection \<open>Bootstrap: lines 68 to 88 of \<^verbatim>\<open>reb_integrator_janus_part1\<close>\<close>

text \<open>
  \<open>orig\<close> is allocated for \<open>N\<close> particles and filled by \<^verbatim>\<open>memcpy\<close> in full, so it is
  \<open>snapshot\<close> of the first \<open>N\<close> particles. \<open>fresh k\<close> is what the \<open>k\<close>-th
  \<^verbatim>\<open>realloc\<close> finds in the cells it adds. \<open>t\<close>, \<open>dt\<close>, \<open>N\<close> and \<open>int_scale\<close> are
  the local constants read at the entry of the function.
\<close>

definition snapshot :: "'c list \<Rightarrow> nat \<Rightarrow> fault + 'c list" where
  "snapshot src n = (if n \<le> length src then Inr (take n src) else Inl Invalid_access)"

definition janus_bootstrap ::
  "(real \<Rightarrow> real) \<Rightarrow> (('a::len) word reb_simulation \<Rightarrow> 'a word reb_simulation) \<Rightarrow> (nat \<Rightarrow> nat \<Rightarrow> 'a word reb_particle_int)
   \<Rightarrow> real \<Rightarrow> real \<Rightarrow> nat \<Rightarrow> real \<Rightarrow> 'a word reb_simulation \<Rightarrow> fault + 'a word reb_simulation" where
  "janus_bootstrap rnd reb_step fresh t dt N int_scale r =
     (let r = r\<lparr>console := console r @ [''Realloc'']\<rparr>;
          r = r\<lparr>ri_janus := (ri_janus r)\<lparr>allocated_N := N\<rparr>\<rparr>;
          r = r\<lparr>ri_janus := (ri_janus r)\<lparr>p_prev := realloc (fresh 0) (p_prev (ri_janus r)) N\<rparr>\<rparr>;
          r = r\<lparr>ri_janus := (ri_janus r)\<lparr>p_next := realloc (fresh 1) (p_next (ri_janus r)) N\<rparr>\<rparr>;
          r = r\<lparr>ri_janus := (ri_janus r)\<lparr>p_prevrecalc := realloc (fresh 2) (p_prevrecalc (ri_janus r)) N\<rparr>\<rparr>;
          r = r\<lparr>ri_janus := (ri_janus r)\<lparr>p_curr := realloc (fresh 3) (p_curr (ri_janus r)) N\<rparr>\<rparr>
      in
      and_then (snapshot (particles r) N) (\<lambda>orig.
      and_then (to_int rnd (cells (p_curr (ri_janus r))) (particles r) N int_scale) (\<lambda>cu.
      let r = r\<lparr>ri_janus := (ri_janus r)\<lparr>p_curr := store (p_curr (ri_janus r)) cu\<rparr>\<rparr>;
          r = r\<lparr>integrator := REB_INTEGRATOR_WHFAST\<rparr>;
          r = r\<lparr>sim_dt := - dt\<rparr>;
          r = reb_step r
      in
      and_then (to_int rnd (cells (p_prev (ri_janus r))) (particles r) N int_scale) (\<lambda>pv.
      let r = r\<lparr>ri_janus := (ri_janus r)\<lparr>p_prev := store (p_prev (ri_janus r)) pv\<rparr>\<rparr>;
          r = r\<lparr>status := REB_RUNNING\<rparr>;
          r = r\<lparr>sim_t := t\<rparr>;
          r = r\<lparr>sim_dt := dt\<rparr>;
          r = r\<lparr>integrator := REB_INTEGRATOR_JANUS\<rparr>
      in
      and_then (memcpy (particles r) orig N) (\<lambda>ps.
      Inr (r\<lparr>particles := ps\<rparr>))))))"

subsection \<open>The step: lines 90 to 109 of \<^verbatim>\<open>reb_integrator_janus_part1\<close>\<close>

text \<open>
  Lines 96 to 98. \<open>a\<close>, \<open>b\<close> and \<open>q\<close> are the cells of \<^verbatim>\<open>p_prev\<close>, \<^verbatim>\<open>p_curr\<close> and
  \<^verbatim>\<open>p_next\<close>. \<^verbatim>\<open>-prev + 2*curr\<close> is computed at the width of the coordinates, widened
  to 128 bits for the sum with the cast forcing term, and the sum is narrowed to the
  width of the coordinates when it is stored.
\<close>

definition janus_next_coord :: "(real \<Rightarrow> real) \<Rightarrow> real \<Rightarrow> real \<Rightarrow> ('a::len) word \<Rightarrow> 'a word \<Rightarrow> real \<Rightarrow> 'a word" where
  "janus_next_coord rnd int_scale dt a b acc =
     ucast ((scast (- a + 2 * b) :: 128 word) + word_of_int (double_to_int (rnd (rnd (rnd (int_scale * dt) * dt) * acc))))"

definition janus_update_cell ::
  "(real \<Rightarrow> real) \<Rightarrow> real \<Rightarrow> real \<Rightarrow> ('a::len) word reb_particle_int \<Rightarrow> 'a word reb_particle_int \<Rightarrow> reb_particle
   \<Rightarrow> 'a word reb_particle_int \<Rightarrow> 'a word reb_particle_int" where
  "janus_update_cell rnd int_scale dt a b p q =
     q\<lparr>ix := janus_next_coord rnd int_scale dt (ix a) (ix b) (pax p),
       iy := janus_next_coord rnd int_scale dt (iy a) (iy b) (pay p),
       iz := janus_next_coord rnd int_scale dt (iz a) (iz b) (paz p)\<rparr>"

definition janus_update ::
  "(real \<Rightarrow> real) \<Rightarrow> ('a::len) word reb_particle_int list \<Rightarrow> 'a word reb_particle_int list \<Rightarrow> 'a word reb_particle_int list
   \<Rightarrow> reb_particle list \<Rightarrow> nat \<Rightarrow> real \<Rightarrow> real \<Rightarrow> fault + 'a word reb_particle_int list" where
  "janus_update rnd nxt prv cur ps N int_scale dt =
     for_range [0..<N]
       (\<lambda>i nxt. and_then (read_at prv i) (\<lambda>a.
                and_then (read_at cur i) (\<lambda>b.
                and_then (read_at ps i) (\<lambda>p.
                and_then (read_at nxt i) (\<lambda>q.
                write_at nxt i (janus_update_cell rnd int_scale dt a b p q))))))
       nxt"

text \<open>Lines 101 to 103: \<^verbatim>\<open>((double)(next - prev))/int_scale/2./dt\<close>.\<close>

definition janus_velocity_coord :: "(real \<Rightarrow> real) \<Rightarrow> real \<Rightarrow> real \<Rightarrow> ('a::len) word \<Rightarrow> 'a word \<Rightarrow> fault + real" where
  "janus_velocity_coord rnd int_scale dt n a =
     and_then (fdiv rnd (rnd (real_of_int (sint (n - a)))) int_scale) (\<lambda>u.
     and_then (fdiv rnd u 2) (\<lambda>v.
     fdiv rnd v dt))"

definition janus_velocity_cell ::
  "(real \<Rightarrow> real) \<Rightarrow> real \<Rightarrow> real \<Rightarrow> ('a::len) word reb_particle_int \<Rightarrow> 'a word reb_particle_int \<Rightarrow> reb_particle
   \<Rightarrow> fault + reb_particle" where
  "janus_velocity_cell rnd int_scale dt n a p =
     and_then (janus_velocity_coord rnd int_scale dt (ix n) (ix a)) (\<lambda>vx.
     and_then (janus_velocity_coord rnd int_scale dt (iy n) (iy a)) (\<lambda>vy.
     and_then (janus_velocity_coord rnd int_scale dt (iz n) (iz a)) (\<lambda>vz.
     Inr (p\<lparr>pvx := vx, pvy := vy, pvz := vz\<rparr>))))"

definition janus_velocity ::
  "(real \<Rightarrow> real) \<Rightarrow> reb_particle list \<Rightarrow> ('a::len) word reb_particle_int list \<Rightarrow> 'a word reb_particle_int list
   \<Rightarrow> nat \<Rightarrow> real \<Rightarrow> real \<Rightarrow> fault + reb_particle list" where
  "janus_velocity rnd ps nxt prv N int_scale dt =
     for_range [0..<N]
       (\<lambda>i ps. and_then (read_at nxt i) (\<lambda>n.
               and_then (read_at prv i) (\<lambda>a.
               and_then (read_at ps i) (\<lambda>p.
               and_then (janus_velocity_cell rnd int_scale dt n a p) (\<lambda>p'.
               write_at ps i p')))))
       ps"

definition janus_advance ::
  "(real \<Rightarrow> real) \<Rightarrow> (('a::len) word reb_simulation \<Rightarrow> 'a word reb_simulation)
   \<Rightarrow> real \<Rightarrow> nat \<Rightarrow> real \<Rightarrow> 'a word reb_simulation \<Rightarrow> fault + 'a word reb_simulation" where
  "janus_advance rnd reb_update_acceleration dt N int_scale r =
     and_then (to_double rnd (particles r) (cells (p_curr (ri_janus r))) N int_scale) (\<lambda>ps.
     let r = r\<lparr>particles := ps\<rparr>;
         r = r\<lparr>gravity_ignore_terms := 0\<rparr>;
         r = reb_update_acceleration r
     in
     and_then (janus_update rnd (cells (p_next (ri_janus r))) (cells (p_prev (ri_janus r)))
                 (cells (p_curr (ri_janus r))) (particles r) N int_scale dt) (\<lambda>nx.
     let r = r\<lparr>ri_janus := (ri_janus r)\<lparr>p_next := store (p_next (ri_janus r)) nx\<rparr>\<rparr> in
     and_then (janus_velocity rnd (particles r) (cells (p_next (ri_janus r)))
                 (cells (p_prev (ri_janus r))) N int_scale dt) (\<lambda>ps.
     let r = r\<lparr>particles := ps\<rparr> in
     and_then (memcpy (cells (p_prev (ri_janus r))) (cells (p_curr (ri_janus r))) N) (\<lambda>pv.
     let r = r\<lparr>ri_janus := (ri_janus r)\<lparr>p_prev := store (p_prev (ri_janus r)) pv\<rparr>\<rparr> in
     and_then (memcpy (cells (p_curr (ri_janus r))) (cells (p_next (ri_janus r))) N) (\<lambda>cu.
     let r = r\<lparr>ri_janus := (ri_janus r)\<lparr>p_curr := store (p_curr (ri_janus r)) cu\<rparr>\<rparr> in
     Inr (r\<lparr>sim_t := rnd (sim_t r + dt)\<rparr>))))))"

subsection \<open>The entry points\<close>

definition reb_integrator_janus_part1 ::
  "(real \<Rightarrow> real) \<Rightarrow> (('a::len) word reb_simulation \<Rightarrow> 'a word reb_simulation)
   \<Rightarrow> ('a word reb_simulation \<Rightarrow> 'a word reb_simulation)
   \<Rightarrow> (nat \<Rightarrow> nat \<Rightarrow> 'a word reb_particle_int)
   \<Rightarrow> 'a word reb_simulation \<Rightarrow> fault + 'a word reb_simulation" where
  "reb_integrator_janus_part1 rnd reb_step reb_update_acceleration fresh r =
     (let t = sim_t r;
          dt = sim_dt r;
          N = sim_N r;
          int_scale = scale (ri_janus r)
      in
      and_then (if allocated_N (ri_janus r) \<noteq> N
                then janus_bootstrap rnd reb_step fresh t dt N int_scale r
                else Inr r) (\<lambda>r.
      janus_advance rnd reb_update_acceleration dt N int_scale r))"

definition reb_integrator_janus_flip ::
  "('a::len) word reb_simulation \<Rightarrow> fault + 'a word reb_simulation" where
  "reb_integrator_janus_flip r =
     (let N = sim_N r in
      and_then (memcpy (cells (p_prevrecalc (ri_janus r))) (cells (p_curr (ri_janus r))) N) (\<lambda>sc.
      let r = r\<lparr>ri_janus := (ri_janus r)\<lparr>p_prevrecalc := store (p_prevrecalc (ri_janus r)) sc\<rparr>\<rparr> in
      and_then (memcpy (cells (p_curr (ri_janus r))) (cells (p_prev (ri_janus r))) N) (\<lambda>cu.
      let r = r\<lparr>ri_janus := (ri_janus r)\<lparr>p_curr := store (p_curr (ri_janus r)) cu\<rparr>\<rparr> in
      and_then (memcpy (cells (p_prev (ri_janus r))) (cells (p_prevrecalc (ri_janus r))) N) (\<lambda>pv.
      Inr (r\<lparr>ri_janus := (ri_janus r)\<lparr>p_prev := store (p_prev (ri_janus r)) pv\<rparr>\<rparr>)))))"

definition reb_integrator_janus_part2 :: "'w reb_simulation \<Rightarrow> 'w reb_simulation" where
  "reb_integrator_janus_part2 r = r"

definition reb_integrator_janus_synchronize :: "'w reb_simulation \<Rightarrow> 'w reb_simulation" where
  "reb_integrator_janus_synchronize r = r"

text \<open>\<^verbatim>\<open>free(p)\<close> followed by \<^verbatim>\<open>p = NULL\<close>, under \<^verbatim>\<open>if (p)\<close>.\<close>

definition reb_integrator_janus_reset :: "'w reb_simulation \<Rightarrow> 'w reb_simulation" where
  "reb_integrator_janus_reset r =
     (let r = r\<lparr>ri_janus := (ri_janus r)\<lparr>allocated_N := 0\<rparr>\<rparr>;
          r = (if p_prev (ri_janus r) \<noteq> None
               then r\<lparr>ri_janus := (ri_janus r)\<lparr>p_prev := None\<rparr>\<rparr> else r);
          r = (if p_prevrecalc (ri_janus r) \<noteq> None
               then r\<lparr>ri_janus := (ri_janus r)\<lparr>p_prevrecalc := None\<rparr>\<rparr> else r);
          r = (if p_curr (ri_janus r) \<noteq> None
               then r\<lparr>ri_janus := (ri_janus r)\<lparr>p_curr := None\<rparr>\<rparr> else r)
      in r)"

subsection \<open>What the loops compute when no fault occurs\<close>

text \<open>
  These definitions are used by the lemmas that evaluate the loops: the particle written
  by one round of \<open>to_double\<close>, the particle written by one round of the velocity loop,
  and the state that \<open>janus_advance\<close> returns.
\<close>

definition decoded :: "(real \<Rightarrow> real) \<Rightarrow> real \<Rightarrow> ('a::len) word reb_particle_int \<Rightarrow> reb_particle \<Rightarrow> reb_particle" where
  "decoded rnd int_scale q p =
     p\<lparr>px := rnd (rnd (real_of_int (sint (ix q))) / int_scale),
       py := rnd (rnd (real_of_int (sint (iy q))) / int_scale),
       pz := rnd (rnd (real_of_int (sint (iz q))) / int_scale)\<rparr>"

definition with_velocity ::
  "(real \<Rightarrow> real) \<Rightarrow> real \<Rightarrow> real \<Rightarrow> ('a::len) word reb_particle_int \<Rightarrow> 'a word reb_particle_int \<Rightarrow> reb_particle
   \<Rightarrow> reb_particle" where
  "with_velocity rnd int_scale dt n a p =
     p\<lparr>pvx := rnd (rnd (rnd (rnd (real_of_int (sint (ix n - ix a))) / int_scale) / 2) / dt),
       pvy := rnd (rnd (rnd (rnd (real_of_int (sint (iy n - iy a))) / int_scale) / 2) / dt),
       pvz := rnd (rnd (rnd (rnd (real_of_int (sint (iz n - iz a))) / int_scale) / 2) / dt)\<rparr>"

definition decoded_particles ::
  "(real \<Rightarrow> real) \<Rightarrow> real \<Rightarrow> nat \<Rightarrow> ('a::len) word reb_particle_int list \<Rightarrow> reb_particle list \<Rightarrow> reb_particle list" where
  "decoded_particles rnd int_scale N cur ps =
     map (\<lambda>i. decoded rnd int_scale (cur ! i) (ps ! i)) [0..<N] @ drop N ps"

text \<open>The state handed to the force evaluator, and the state it returns.\<close>

definition force_input :: "(real \<Rightarrow> real) \<Rightarrow> nat \<Rightarrow> real \<Rightarrow> ('a::len) word reb_simulation \<Rightarrow> 'a word reb_simulation" where
  "force_input rnd N int_scale r =
     r\<lparr>particles := decoded_particles rnd int_scale N (cells (p_curr (ri_janus r))) (particles r),
       gravity_ignore_terms := 0\<rparr>"

definition next_cells ::
  "(real \<Rightarrow> real) \<Rightarrow> real \<Rightarrow> real \<Rightarrow> nat \<Rightarrow> ('a::len) word reb_simulation \<Rightarrow> 'a word reb_particle_int list" where
  "next_cells rnd int_scale dt N r =
     map (\<lambda>i. janus_update_cell rnd int_scale dt (cells (p_prev (ri_janus r)) ! i)
                 (cells (p_curr (ri_janus r)) ! i) (particles r ! i) (cells (p_next (ri_janus r)) ! i))
       [0..<N]
     @ drop N (cells (p_next (ri_janus r)))"

definition advance_value ::
  "(real \<Rightarrow> real) \<Rightarrow> (('a::len) word reb_simulation \<Rightarrow> 'a word reb_simulation)
   \<Rightarrow> real \<Rightarrow> nat \<Rightarrow> real \<Rightarrow> 'a word reb_simulation \<Rightarrow> 'a word reb_simulation" where
  "advance_value rnd reb_update_acceleration dt N int_scale r =
     (let r1 = reb_update_acceleration (force_input rnd N int_scale r);
          ri = ri_janus r1;
          nx = next_cells rnd int_scale dt N r1;
          prv = cells (p_prev ri);
          cur = cells (p_curr ri)
      in r1\<lparr>particles :=
               map (\<lambda>i. with_velocity rnd int_scale dt (nx ! i) (prv ! i) (particles r1 ! i)) [0..<N]
               @ drop N (particles r1),
             ri_janus := ri\<lparr>p_next := store (p_next ri) nx,
                            p_prev := store (p_prev ri) (take N cur @ drop N prv),
                            p_curr := store (p_curr ri) (take N nx @ drop N cur)\<rparr>,
             sim_t := rnd (sim_t r1 + dt)\<rparr>)"

subsection \<open>What the bootstrap computes when no fault occurs\<close>

definition bootstrap_probe_input ::
  "(real \<Rightarrow> real) \<Rightarrow> (nat \<Rightarrow> nat \<Rightarrow> ('a::len) word reb_particle_int) \<Rightarrow> real \<Rightarrow> nat \<Rightarrow> real
   \<Rightarrow> 'a word reb_simulation \<Rightarrow> 'a word reb_simulation" where
  "bootstrap_probe_input rnd fresh dt N int_scale r =
     r\<lparr>console := console r @ [''Realloc''],
       ri_janus := (ri_janus r)
         \<lparr>allocated_N := N,
          p_prev := realloc (fresh 0) (p_prev (ri_janus r)) N,
          p_next := realloc (fresh 1) (p_next (ri_janus r)) N,
          p_prevrecalc := realloc (fresh 2) (p_prevrecalc (ri_janus r)) N,
          p_curr := Some (map (\<lambda>i. to_int_cell rnd int_scale (particles r ! i)
                                   (cells (realloc (fresh 3) (p_curr (ri_janus r)) N) ! i)) [0..<N])\<rparr>,
       integrator := REB_INTEGRATOR_WHFAST,
       sim_dt := - dt\<rparr>"

definition bootstrap_value ::
  "(real \<Rightarrow> real) \<Rightarrow> (('a::len) word reb_simulation \<Rightarrow> 'a word reb_simulation) \<Rightarrow> (nat \<Rightarrow> nat \<Rightarrow> 'a word reb_particle_int)
   \<Rightarrow> real \<Rightarrow> real \<Rightarrow> nat \<Rightarrow> real \<Rightarrow> 'a word reb_simulation \<Rightarrow> 'a word reb_simulation" where
  "bootstrap_value rnd reb_step fresh t dt N int_scale r =
     (let r1 = reb_step (bootstrap_probe_input rnd fresh dt N int_scale r);
          ri = ri_janus r1;
          pv = map (\<lambda>i. to_int_cell rnd int_scale (particles r1 ! i) (cells (p_prev ri) ! i)) [0..<N]
               @ drop N (cells (p_prev ri))
      in r1\<lparr>ri_janus := ri\<lparr>p_prev := store (p_prev ri) pv\<rparr>,
             status := REB_RUNNING,
             sim_t := t,
             sim_dt := dt,
             integrator := REB_INTEGRATOR_JANUS,
             particles := take N (particles r) @ drop N (particles r1)\<rparr>)"

subsection \<open>Collaborators, ready states and runs\<close>

text \<open>
  \<open>keeps_janus f\<close>: the collaborator \<open>f\<close> (the probe step or the force evaluator) leaves
  the integrator instance, the particle count and the size of the particle array alone.
  \<open>keeps_console f\<close>: it writes nothing to the console. \<open>keeps_dt f\<close>: it leaves the
  timestep alone. \<open>logged l f\<close> is \<open>f\<close> made to write the line \<open>l\<close> to the console at
  the end of each of its calls.
\<close>

definition keeps_janus :: "('w reb_simulation \<Rightarrow> 'w reb_simulation) \<Rightarrow> bool" where
  "keeps_janus f \<longleftrightarrow>
     (\<forall>s. ri_janus (f s) = ri_janus s \<and> sim_N (f s) = sim_N s \<and>
          length (particles (f s)) = length (particles s))"



definition keeps_dt :: "('w reb_simulation \<Rightarrow> 'w reb_simulation) \<Rightarrow> bool" where
  "keeps_dt f \<longleftrightarrow> (\<forall>s. sim_dt (f s) = sim_dt s)"

text \<open>
  \<open>step_ready\<close>: the state of an instance between two steps of an epoch: the buffers are
  allocated for the current particle count, and scale and timestep are not zero.
\<close>

definition step_ready :: "('a::len) word reb_simulation \<Rightarrow> bool" where
  "step_ready r \<longleftrightarrow>
     scale (ri_janus r) \<noteq> 0 \<and> sim_dt r \<noteq> 0 \<and>
     allocated_N (ri_janus r) = sim_N r \<and>
     sim_N r \<le> length (particles r) \<and>
     sim_N r \<le> length (cells (p_prev (ri_janus r))) \<and>
     sim_N r \<le> length (cells (p_curr (ri_janus r))) \<and>
     sim_N r \<le> length (cells (p_next (ri_janus r)))"

text \<open>The host calls the step \<open>k\<close> times in a row and stops at the first fault.\<close>

primrec run_steps ::
  "(real \<Rightarrow> real) \<Rightarrow> (('a::len) word reb_simulation \<Rightarrow> 'a word reb_simulation)
   \<Rightarrow> ('a word reb_simulation \<Rightarrow> 'a word reb_simulation)
   \<Rightarrow> (nat \<Rightarrow> nat \<Rightarrow> 'a word reb_particle_int)
   \<Rightarrow> nat \<Rightarrow> 'a word reb_simulation \<Rightarrow> fault + 'a word reb_simulation" where
  "run_steps rnd reb_step reb_update_acceleration fresh 0 r = Inr r"
| "run_steps rnd reb_step reb_update_acceleration fresh (Suc k) r =
     and_then (reb_integrator_janus_part1 rnd reb_step reb_update_acceleration fresh r)
       (run_steps rnd reb_step reb_update_acceleration fresh k)"

subsection \<open>Buffers that the flip can work on\<close>

text \<open>
  \<open>flip_ready\<close>: the three buffers that \<open>reb_integrator_janus_flip\<close> copies hold at
  least \<open>N\<close> cells each. \<open>flip_value\<close> is the state the flip returns then.
\<close>

definition flip_ready :: "('a::len) word reb_simulation \<Rightarrow> bool" where
  "flip_ready r \<longleftrightarrow>
     sim_N r \<le> length (cells (p_prev (ri_janus r))) \<and>
     sim_N r \<le> length (cells (p_curr (ri_janus r))) \<and>
     sim_N r \<le> length (cells (p_prevrecalc (ri_janus r)))"

definition flip_value :: "('a::len) word reb_simulation \<Rightarrow> 'a word reb_simulation" where
  "flip_value r =
     (let ri = ri_janus r; N = sim_N r;
          prv = cells (p_prev ri); cur = cells (p_curr ri); scr = cells (p_prevrecalc ri)
      in r\<lparr>ri_janus := ri\<lparr>p_prevrecalc := store (p_prevrecalc ri) (take N cur @ drop N scr),
                            p_curr := store (p_curr ri) (take N prv @ drop N cur),
                            p_prev := store (p_prev ri) (take N cur @ drop N prv)\<rparr>\<rparr>)"

subsection \<open>A concrete simulation\<close>

text \<open>
  One particle at \<open>(1, 0, 0)\<close> with velocity \<open>(0, 1, 0)\<close>, 64-bit coordinates, scale 4 and
  timestep 1. \<open>demo_unallocated\<close> is the instance before its first step, with a run
  status other than \<open>REB_RUNNING\<close>; \<open>demo_sim\<close> is the same simulation with its four
  buffers allocated and filled as the bootstrap fills them. \<open>demo_probe\<close> is a companion
  scheme that lets every particle drift for one timestep, \<open>demo_force\<close> a force evaluator
  that pulls every particle towards the origin, \<open>demo_no_force\<close> the evaluator of free
  motion, and \<open>demo_fresh\<close> the contents of fresh memory. All numbers are dyadic, so the
  doubles of the program take exactly these values.
\<close>

definition cell6 :: "int \<Rightarrow> int \<Rightarrow> int \<Rightarrow> int \<Rightarrow> int \<Rightarrow> int \<Rightarrow> 64 word reb_particle_int" where
  "cell6 a b c d e f =
     \<lparr>ix = word_of_int a, iy = word_of_int b, iz = word_of_int c,
      ivx = word_of_int d, ivy = word_of_int e, ivz = word_of_int f\<rparr>"

definition demo_fresh :: "nat \<Rightarrow> nat \<Rightarrow> 64 word reb_particle_int" where
  "demo_fresh k i = cell6 7 7 7 7 7 7"

definition demo_particle :: reb_particle where
  "demo_particle = \<lparr>px = 1, py = 0, pz = 0, pvx = 0, pvy = 1, pvz = 0, pax = 0, pay = 0, paz = 0, pm = 1\<rparr>"

definition demo_unallocated :: "64 word reb_simulation" where
  "demo_unallocated =
     \<lparr>sim_t = 0, sim_dt = 1, sim_N = 1, particles = [demo_particle],
      integrator = REB_INTEGRATOR_JANUS, status = REB_STATUS_OTHER 0, gravity_ignore_terms = 0,
      ri_janus = \<lparr>scale = 4, allocated_N = 0,
                  p_prev = None, p_curr = None, p_next = None, p_prevrecalc = None\<rparr>,
      console = []\<rparr>"

definition demo_sim :: "64 word reb_simulation" where
  "demo_sim =
     \<lparr>sim_t = 0, sim_dt = 1, sim_N = 1, particles = [demo_particle],
      integrator = REB_INTEGRATOR_JANUS, status = REB_RUNNING, gravity_ignore_terms = 0,
      ri_janus = \<lparr>scale = 4, allocated_N = 1,
                  p_prev = Some [cell6 4 (- 4) 0 0 4 0], p_curr = Some [cell6 4 0 0 0 4 0],
                  p_next = Some [cell6 7 7 7 7 7 7], p_prevrecalc = Some [cell6 7 7 7 7 7 7]\<rparr>,
      console = [''Realloc'']\<rparr>"

definition drift :: "real \<Rightarrow> reb_particle \<Rightarrow> reb_particle" where
  "drift h p = p\<lparr>px := px p + pvx p * h, py := py p + pvy p * h, pz := pz p + pvz p * h\<rparr>"

definition demo_probe :: "64 word reb_simulation \<Rightarrow> 64 word reb_simulation" where
  "demo_probe s = s\<lparr>sim_t := sim_t s + sim_dt s, particles := map (drift (sim_dt s)) (particles s)\<rparr>"

definition pull :: "reb_particle \<Rightarrow> reb_particle" where
  "pull p = p\<lparr>pax := - (3 / 16) * px p, pay := - (3 / 16) * py p, paz := - (3 / 16) * pz p\<rparr>"

definition demo_force :: "64 word reb_simulation \<Rightarrow> 64 word reb_simulation" where
  "demo_force s = s\<lparr>particles := map pull (particles s)\<rparr>"

definition no_pull :: "reb_particle \<Rightarrow> reb_particle" where
  "no_pull p = p\<lparr>pax := 0, pay := 0, paz := 0\<rparr>"

definition demo_no_force :: "64 word reb_simulation \<Rightarrow> 64 word reb_simulation" where
  "demo_no_force s = s\<lparr>particles := map no_pull (particles s)\<rparr>"

subsection \<open>States at the start of an epoch, and faults\<close>

text \<open>
  \<open>epoch_start\<close>: a state in which the host may call the step: scale and timestep are
  not zero, the particle array holds the \<open>N\<close> particles, and an instance whose stored
  count already equals \<open>N\<close> has its buffers. \<open>buffers_ready\<close> is \<open>step_ready\<close> without
  the conditions on scale and timestep. \<open>no_div_fault\<close>: the result is not the
  division fault. \<open>demo_still\<close> is the concrete simulation with timestep zero.
\<close>

definition epoch_start :: "('a::len) word reb_simulation \<Rightarrow> bool" where
  "epoch_start r \<longleftrightarrow>
     scale (ri_janus r) \<noteq> 0 \<and> sim_dt r \<noteq> 0 \<and> sim_N r \<le> length (particles r) \<and>
     (allocated_N (ri_janus r) = sim_N r \<longrightarrow> step_ready r)"

definition no_div_fault :: "fault + 'b \<Rightarrow> bool" where
  "no_div_fault m \<longleftrightarrow> m \<noteq> Inl Division_by_zero"

definition buffers_ready :: "('a::len) word reb_simulation \<Rightarrow> bool" where
  "buffers_ready r \<longleftrightarrow>
     allocated_N (ri_janus r) = sim_N r \<and>
     sim_N r \<le> length (particles r) \<and>
     sim_N r \<le> length (cells (p_prev (ri_janus r))) \<and>
     sim_N r \<le> length (cells (p_curr (ri_janus r))) \<and>
     sim_N r \<le> length (cells (p_next (ri_janus r)))"

definition demo_still :: "64 word reb_simulation" where
  "demo_still = demo_sim\<lparr>sim_dt := 0\<rparr>"

subsection \<open>Positions and accelerations\<close>

text \<open>
  The positions held by the first \<open>N\<close> cells of a buffer, the accelerations of the first
  \<open>N\<close> particles, and the update of lines 96 to 98 on such triples. \<open>rounded_next_coord\<close>
  is the update as the specification writes it, with the forcing term rounded to the
  nearest integer.
\<close>

definition cell_position :: "'w reb_particle_int \<Rightarrow> 'w \<times> 'w \<times> 'w" where
  "cell_position q = (ix q, iy q, iz q)"

definition positions :: "nat \<Rightarrow> 'w reb_particle_int list option \<Rightarrow> ('w \<times> 'w \<times> 'w) list" where
  "positions N p = map cell_position (take N (cells p))"

definition acceleration :: "reb_particle \<Rightarrow> real \<times> real \<times> real" where
  "acceleration p = (pax p, pay p, paz p)"

definition accelerations :: "nat \<Rightarrow> reb_particle list \<Rightarrow> (real \<times> real \<times> real) list" where
  "accelerations N ps = map acceleration (take N ps)"

definition next_position ::
  "(real \<Rightarrow> real) \<Rightarrow> real \<Rightarrow> real \<Rightarrow> ('a::len) word \<times> 'a word \<times> 'a word \<Rightarrow> 'a word \<times> 'a word \<times> 'a word
   \<Rightarrow> real \<times> real \<times> real \<Rightarrow> 'a word \<times> 'a word \<times> 'a word" where
  "next_position rnd int_scale dt a b acc =
     (janus_next_coord rnd int_scale dt (fst a) (fst b) (fst acc),
      janus_next_coord rnd int_scale dt (fst (snd a)) (fst (snd b)) (fst (snd acc)),
      janus_next_coord rnd int_scale dt (snd (snd a)) (snd (snd b)) (snd (snd acc)))"

definition next_positions ::
  "(real \<Rightarrow> real) \<Rightarrow> real \<Rightarrow> real \<Rightarrow> (('a::len) word \<times> 'a word \<times> 'a word) list \<Rightarrow> ('a word \<times> 'a word \<times> 'a word) list
   \<Rightarrow> (real \<times> real \<times> real) list \<Rightarrow> ('a word \<times> 'a word \<times> 'a word) list" where
  "next_positions rnd int_scale dt as bs accs =
     map (\<lambda>i. next_position rnd int_scale dt (as ! i) (bs ! i) (accs ! i)) [0..<length bs]"

definition rounded_next_coord :: "(real \<Rightarrow> real) \<Rightarrow> real \<Rightarrow> real \<Rightarrow> ('a::len) word \<Rightarrow> 'a word \<Rightarrow> real \<Rightarrow> 'a word" where
  "rounded_next_coord rnd int_scale dt a b acc = - a + 2 * b + word_of_int (round (rnd (rnd (rnd (int_scale * dt) * dt) * acc)))"

text \<open>
  \<open>to_eighths\<close> is a coarse rounding, to the nearest multiple of 1/8. It is used to show
  that the roundings of the forcing term are visible in the cell that the step stores.
\<close>

definition to_eighths :: "real \<Rightarrow> real" where
  "to_eighths x = real_of_int (round (8 * x)) / 8"

subsection \<open>Free motion, and a second concrete simulation\<close>

text \<open>
  \<open>zero_force\<close>: the force evaluator leaves every one of the \<open>N\<close> particles with
  acceleration zero. \<open>demo_other\<close> has the scale, the timestep and the buffers of
  \<open>demo_sim\<close>, and another time, other velocities, another status and another console.
\<close>

definition zero_force :: "('w reb_simulation \<Rightarrow> 'w reb_simulation) \<Rightarrow> bool" where
  "zero_force upd \<longleftrightarrow>
     (\<forall>s. \<forall>p \<in> set (take (sim_N s) (particles (upd s))). acceleration p = (0, 0, 0))"

definition demo_other :: "64 word reb_simulation" where
  "demo_other = demo_sim\<lparr>sim_t := 5, particles := [demo_particle\<lparr>pvx := 3, pvy := 2\<rparr>],
                         status := REB_STATUS_OTHER 1, console := []\<rparr>"

subsection \<open>Encoded positions, and a slow particle\<close>

text \<open>
  \<open>encoded\<close> is the coordinate that \<open>to_int\<close> stores for a real coordinate.
  \<open>demo_slow\<close> is \<open>demo_unallocated\<close> with a particle of velocity \<open>(5/16, 0, 0)\<close>.
\<close>

definition encoded :: "(real \<Rightarrow> real) \<Rightarrow> real \<Rightarrow> real \<Rightarrow> ('a::len) word" where
  "encoded rnd int_scale v = word_of_int (double_to_int (rnd (v * int_scale)))"

definition slow_particle :: reb_particle where
  "slow_particle = \<lparr>px = 1, py = 0, pz = 0, pvx = 5 / 16, pvy = 0, pvz = 0, pax = 0, pay = 0, paz = 0, pm = 1\<rparr>"

definition demo_slow :: "64 word reb_simulation" where
  "demo_slow = demo_unallocated\<lparr>particles := [slow_particle]\<rparr>"

subsection \<open>Forward, flip, backward\<close>

text \<open>
  \<open>force_by_position\<close>: the force evaluator keeps the masses of the \<open>N\<close> particles, and
  the accelerations it returns for them depend only on their positions and masses, so a
  revisited state gets the accelerations it got before. \<open>there_and_back\<close>: \<open>k\<close> steps,
  the flip, the timestep negated, \<open>k\<close> more steps. \<open>mirrored r b\<close>: \<open>b\<close> is a state of
  the backward run that holds the two generations of \<open>r\<close> in exchanged roles.
\<close>

definition masses :: "nat \<Rightarrow> reb_particle list \<Rightarrow> real list" where
  "masses N ps = map pm (take N ps)"

definition force_inputs :: "nat \<Rightarrow> reb_particle list \<Rightarrow> (real \<times> real \<times> real \<times> real) list" where
  "force_inputs N ps = map (\<lambda>p. (px p, py p, pz p, pm p)) (take N ps)"

definition force_by_position :: "('w reb_simulation \<Rightarrow> 'w reb_simulation) \<Rightarrow> bool" where
  "force_by_position upd \<longleftrightarrow>
     (\<forall>s. masses (sim_N s) (particles (upd s)) = masses (sim_N s) (particles s)) \<and>
     (\<forall>s s'. sim_N s = sim_N s' \<and>
             force_inputs (sim_N s) (particles s) = force_inputs (sim_N s') (particles s') \<longrightarrow>
             accelerations (sim_N s) (particles (upd s)) = accelerations (sim_N s') (particles (upd s')))"

definition there_and_back ::
  "(real \<Rightarrow> real) \<Rightarrow> (('a::len) word reb_simulation \<Rightarrow> 'a word reb_simulation)
   \<Rightarrow> ('a word reb_simulation \<Rightarrow> 'a word reb_simulation)
   \<Rightarrow> (nat \<Rightarrow> nat \<Rightarrow> 'a word reb_particle_int)
   \<Rightarrow> nat \<Rightarrow> 'a word reb_simulation \<Rightarrow> fault + 'a word reb_simulation" where
  "there_and_back rnd reb_step reb_update_acceleration fresh k r =
     and_then (run_steps rnd reb_step reb_update_acceleration fresh k r) (\<lambda>r.
     and_then (reb_integrator_janus_flip r) (\<lambda>r.
     run_steps rnd reb_step reb_update_acceleration fresh k (r\<lparr>sim_dt := - sim_dt r\<rparr>)))"

definition mirrored :: "('a::len) word reb_simulation \<Rightarrow> 'a word reb_simulation \<Rightarrow> bool" where
  "mirrored r b \<longleftrightarrow>
     sim_N b = sim_N r \<and> scale (ri_janus b) = scale (ri_janus r) \<and> sim_dt b = - sim_dt r \<and>
     step_ready b \<and> flip_ready b \<and>
     masses (sim_N r) (particles b) = masses (sim_N r) (particles r) \<and>
     positions (sim_N r) (p_prev (ri_janus b)) = positions (sim_N r) (p_curr (ri_janus r)) \<and>
     positions (sim_N r) (p_curr (ri_janus b)) = positions (sim_N r) (p_prev (ri_janus r))"

section \<open>Evaluation of the building blocks\<close>

lemma and_then_Inr: "and_then (Inr v) f = f v"
  by (simp add: and_then_def)

lemma and_then_Inl: "and_then (Inl e) f = Inl e"
  by (simp add: and_then_def)

lemma for_range_append:
  "for_range (xs @ ys) body s = and_then (for_range xs body s) (for_range ys body)"
  by (induction xs arbitrary: s) (auto simp: and_then_def split: sum.splits)

lemma for_range_pointwise:
  assumes body: "\<And>i xs. i < n \<Longrightarrow> length xs = length ys \<Longrightarrow> xs ! i = ys ! i \<Longrightarrow> body i xs = Inr (xs[i := g i])"
    and n: "n \<le> length ys"
  shows "for_range [0..<n] body ys = Inr (map g [0..<n] @ drop n ys)"
  using n body
proof (induction n)
  case 0
  then show ?case by simp
next
  case (Suc n)
  let ?zs = "map g [0..<n] @ drop n ys"
  have IH: "for_range [0..<n] body ys = Inr ?zs"
    using Suc by simp
  have len: "length ?zs = length ys" using Suc.prems(1) by simp
  have nth: "?zs ! n = ys ! n" using Suc.prems(1) by (simp add: nth_append)
  have step: "body n ?zs = Inr (?zs[n := g n])"
    using Suc.prems(2) [of n ?zs] len nth by simp
  have upd: "?zs[n := g n] = map g [0..<Suc n] @ drop (Suc n) ys"
    using Suc.prems(1) by (simp add: list_update_append Cons_nth_drop_Suc [symmetric] )
  show ?case
    using IH step upd by (simp add: for_range_append and_then_Inr)
qed

lemma ucast_scast_add:
  assumes "LENGTH('a::len) \<le> 128"
  shows "(ucast ((scast (w :: 'a word) :: 128 word) + f) :: 'a word) = w + ucast f"
proof -
  have d: "is_down (ucast :: 128 word \<Rightarrow> 'a word)"
    using assms by (simp add: is_down)
  have "(scast w :: 128 word) + f = word_of_int (sint w) + word_of_int (uint f)"
    by (simp only: scast_eq word_of_int_uint)
  also have "\<dots> = word_of_int (sint w + uint f)"
    by (simp only: of_int_add)
  finally have "(ucast ((scast w :: 128 word) + f) :: 'a word) = word_of_int (sint w + uint f)"
    by (simp only: ucast_down_wi [OF d])
  also have "\<dots> = word_of_int (sint w) + word_of_int (uint f)"
    by (simp only: of_int_add)
  also have "\<dots> = w + ucast f"
    by simp
  finally show ?thesis .
qed

lemma janus_next_coord_eq:
  assumes "LENGTH('a::len) \<le> 128"
  shows "janus_next_coord rnd int_scale dt (a :: 'a word) b acc
         = - a + 2 * b + word_of_int (double_to_int (rnd (rnd (rnd (int_scale * dt) * dt) * acc)))"
proof -
  have d: "is_down (ucast :: 128 word \<Rightarrow> 'a word)"
    using assms by (simp add: is_down)
  show ?thesis
    unfolding janus_next_coord_def ucast_scast_add [OF assms]
    using ucast_down_wi [OF d] by simp
qed

lemma to_int_Inr:
  assumes "N \<le> length ps" "N \<le> length psi"
  shows "to_int rnd psi ps N sc = Inr (map (\<lambda>i. to_int_cell rnd sc (ps ! i) (psi ! i)) [0..<N] @ drop N psi)"
  unfolding to_int_def
  by (rule for_range_pointwise) (use assms in \<open>simp_all add: read_at_def write_at_def and_then_Inr\<close>)

lemma to_double_cell_Inr: "sc \<noteq> 0 \<Longrightarrow> to_double_cell rnd sc q p = Inr (decoded rnd sc q p)"
  by (simp add: to_double_cell_def decoded_def fdiv_def and_then_Inr)

lemma to_double_Inr:
  assumes "sc \<noteq> 0" "N \<le> length ps" "N \<le> length psi"
  shows "to_double rnd ps psi N sc = Inr (decoded_particles rnd sc N psi ps)"
  unfolding to_double_def decoded_particles_def
  by (rule for_range_pointwise)
     (use assms in \<open>simp_all add: read_at_def write_at_def and_then_Inr to_double_cell_Inr\<close>)

lemma janus_update_Inr:
  assumes "N \<le> length nxt" "N \<le> length prv" "N \<le> length cur" "N \<le> length ps"
  shows "janus_update rnd nxt prv cur ps N sc dt
         = Inr (map (\<lambda>i. janus_update_cell rnd sc dt (prv ! i) (cur ! i) (ps ! i) (nxt ! i)) [0..<N]
                @ drop N nxt)"
  unfolding janus_update_def
  by (rule for_range_pointwise) (use assms in \<open>simp_all add: read_at_def write_at_def and_then_Inr\<close>)

lemma janus_velocity_cell_Inr:
  "sc \<noteq> 0 \<Longrightarrow> dt \<noteq> 0 \<Longrightarrow> janus_velocity_cell rnd sc dt n a p = Inr (with_velocity rnd sc dt n a p)"
  by (simp add: janus_velocity_cell_def janus_velocity_coord_def with_velocity_def fdiv_def and_then_Inr)

lemma janus_velocity_Inr:
  assumes "sc \<noteq> 0" "dt \<noteq> 0" "N \<le> length ps" "N \<le> length nxt" "N \<le> length prv"
  shows "janus_velocity rnd ps nxt prv N sc dt
         = Inr (map (\<lambda>i. with_velocity rnd sc dt (nxt ! i) (prv ! i) (ps ! i)) [0..<N] @ drop N ps)"
  unfolding janus_velocity_def
  by (rule for_range_pointwise)
     (use assms in \<open>simp_all add: read_at_def write_at_def and_then_Inr janus_velocity_cell_Inr\<close>)

lemma memcpy_Inr: "n \<le> length dst \<Longrightarrow> n \<le> length src \<Longrightarrow> memcpy dst src n = Inr (take n src @ drop n dst)"
  by (simp add: memcpy_def)

lemma cells_store: "length xs = length (cells p) \<Longrightarrow> cells (store p xs) = xs"
  by (cases p) (simp_all add: cells_def store_def)

lemma length_next_cells:
  "N \<le> length (cells (p_next (ri_janus r))) \<Longrightarrow> length (next_cells rnd sc dt N r) = length (cells (p_next (ri_janus r)))"
  by (simp add: next_cells_def)

lemma store_store: "store (store p xs) ys = store p ys"
  by (cases p) (simp_all add: store_def)

lemma store_cells: "store p (cells p) = p"
  by (cases p) (simp_all add: store_def cells_def)

lemma janus_advance_Inr:
  fixes r :: "('a::len) word reb_simulation" and rnd upd N sc
  defines "r1 \<equiv> upd (force_input rnd N sc r)"
  assumes sc: "sc \<noteq> 0" and dt: "dt \<noteq> 0"
    and ps: "N \<le> length (particles r)" and cur0: "N \<le> length (cells (p_curr (ri_janus r)))"
    and ps1: "N \<le> length (particles r1)"
    and prv: "N \<le> length (cells (p_prev (ri_janus r1)))"
    and cur: "N \<le> length (cells (p_curr (ri_janus r1)))"
    and nxt: "N \<le> length (cells (p_next (ri_janus r1)))"
  shows "janus_advance rnd upd dt N sc r = Inr (advance_value rnd upd dt N sc r)"
proof -
  have a: "to_double rnd (particles r) (cells (p_curr (ri_janus r))) N sc
           = Inr (decoded_particles rnd sc N (cells (p_curr (ri_janus r))) (particles r))"
    using sc ps cur0 by (rule to_double_Inr)
  have b: "janus_update rnd (cells (p_next (ri_janus r1))) (cells (p_prev (ri_janus r1)))
             (cells (p_curr (ri_janus r1))) (particles r1) N sc dt = Inr (next_cells rnd sc dt N r1)"
    unfolding next_cells_def using nxt prv cur ps1 by (rule janus_update_Inr)
  have ln: "length (next_cells rnd sc dt N r1) = length (cells (p_next (ri_janus r1)))"
    using nxt by (rule length_next_cells)
  have cn: "cells (store (p_next (ri_janus r1)) (next_cells rnd sc dt N r1)) = next_cells rnd sc dt N r1"
    using ln by (rule cells_store)
  have c: "janus_velocity rnd (particles r1) (next_cells rnd sc dt N r1) (cells (p_prev (ri_janus r1))) N sc dt
           = Inr (map (\<lambda>i. with_velocity rnd sc dt (next_cells rnd sc dt N r1 ! i) (cells (p_prev (ri_janus r1)) ! i)
                           (particles r1 ! i)) [0..<N] @ drop N (particles r1))"
    using sc dt ps1 _ prv by (rule janus_velocity_Inr) (use ln nxt in simp)
  have d: "memcpy (cells (p_prev (ri_janus r1))) (cells (p_curr (ri_janus r1))) N
           = Inr (take N (cells (p_curr (ri_janus r1))) @ drop N (cells (p_prev (ri_janus r1))))"
    using prv cur by (rule memcpy_Inr)
  have e: "memcpy (cells (p_curr (ri_janus r1))) (next_cells rnd sc dt N r1) N
           = Inr (take N (next_cells rnd sc dt N r1) @ drop N (cells (p_curr (ri_janus r1))))"
    using cur by (rule memcpy_Inr) (use ln nxt in simp)
  show ?thesis
    unfolding janus_advance_def advance_value_def
    by (simp add: a and_then_Inr Let_def force_input_def [symmetric] r1_def [symmetric] b cn c d e)
qed

lemma sign_symmetric_id: "sign_symmetric id"
  by (simp add: sign_symmetric_def)

lemma sign_symmetric_zero: "sign_symmetric rnd \<Longrightarrow> rnd 0 = 0"
proof -
  assume "sign_symmetric rnd"
  then have "rnd (- 0) = - rnd 0"
    unfolding sign_symmetric_def by blast
  then show ?thesis by simp
qed

lemma forcing_term_back:
  assumes "sign_symmetric rnd"
  shows "rnd (rnd (rnd (sc * - dt) * - dt) * x) = rnd (rnd (rnd (sc * dt) * dt) * x)"
proof -
  have "rnd (sc * - dt) = - rnd (sc * dt)"
    using assms by (simp add: sign_symmetric_def)
  then show ?thesis by simp
qed

section \<open>The time-reversal flip\<close>

lemma flip_Inr:
  assumes "flip_ready r"
  shows "reb_integrator_janus_flip r = Inr (flip_value r)"
proof -
  let ?N = "sim_N r"
  let ?ri = "ri_janus r"
  let ?prv = "cells (p_prev ?ri)" and ?cur = "cells (p_curr ?ri)" and ?scr = "cells (p_prevrecalc ?ri)"
  have l: "?N \<le> length ?prv" "?N \<le> length ?cur" "?N \<le> length ?scr"
    using assms by (simp_all add: flip_ready_def)
  have a: "memcpy ?scr ?cur ?N = Inr (take ?N ?cur @ drop ?N ?scr)"
    using l by (simp add: memcpy_Inr)
  have cs: "cells (store (p_prevrecalc ?ri) (take ?N ?cur @ drop ?N ?scr)) = take ?N ?cur @ drop ?N ?scr"
    using l by (simp add: cells_store)
  have b: "memcpy ?cur ?prv ?N = Inr (take ?N ?prv @ drop ?N ?cur)"
    using l by (simp add: memcpy_Inr)
  have c: "memcpy ?prv (take ?N ?cur @ drop ?N ?scr) ?N = Inr (take ?N ?cur @ drop ?N ?prv)"
    using l by (simp add: memcpy_def)
  show ?thesis
    unfolding reb_integrator_janus_flip_def flip_value_def
    by (simp add: Let_def a and_then_Inr cs b c)
qed

lemma flip_ready_flip_value: "flip_ready r \<Longrightarrow> flip_ready (flip_value r)"
  by (simp add: flip_ready_def flip_value_def Let_def cells_store)

lemma flip_value_twice:
  assumes "flip_ready r"
  shows "flip_value (flip_value r)
         = r\<lparr>ri_janus := (ri_janus r)\<lparr>p_prevrecalc :=
               store (p_prevrecalc (ri_janus r))
                 (take (sim_N r) (cells (p_prev (ri_janus r))) @ drop (sim_N r) (cells (p_prevrecalc (ri_janus r))))\<rparr>\<rparr>"
proof -
  have l: "sim_N r \<le> length (cells (p_prev (ri_janus r)))"
          "sim_N r \<le> length (cells (p_curr (ri_janus r)))"
          "sim_N r \<le> length (cells (p_prevrecalc (ri_janus r)))"
    using assms by (simp_all add: flip_ready_def)
  show ?thesis
    using l by (simp add: flip_value_def Let_def cells_store store_store store_cells)
qed

lemma flip_ready_demo: "flip_ready demo_sim"
  by (simp add: flip_ready_def demo_sim_def cells_def)

text \<open>
  Claim C7. On buffers that hold at least \<open>N\<close> cells, \<open>reb_integrator_janus_flip\<close>
  returns without a fault; afterwards the first \<open>N\<close> cells of \<open>p_prev\<close> are the former
  first \<open>N\<close> cells of \<open>p_curr\<close> and the other way round, the cells beyond \<open>N\<close> stay where
  they were, the scratch buffer \<open>p_prevrecalc\<close> holds the copy of the former \<open>p_curr\<close>
  through which the exchange went, and \<open>p_next\<close> and the time of the host are unchanged.
\<close>

theorem flip_exchanges_prev_curr:
  fixes r :: "('a::len) word reb_simulation"
  assumes "flip_ready r"
  shows "\<exists>r'. reb_integrator_janus_flip r = Inr r' \<and>
           take (sim_N r) (cells (p_prev (ri_janus r'))) = take (sim_N r) (cells (p_curr (ri_janus r))) \<and>
           take (sim_N r) (cells (p_curr (ri_janus r'))) = take (sim_N r) (cells (p_prev (ri_janus r))) \<and>
           drop (sim_N r) (cells (p_prev (ri_janus r'))) = drop (sim_N r) (cells (p_prev (ri_janus r))) \<and>
           drop (sim_N r) (cells (p_curr (ri_janus r'))) = drop (sim_N r) (cells (p_curr (ri_janus r))) \<and>
           take (sim_N r) (cells (p_prevrecalc (ri_janus r'))) = take (sim_N r) (cells (p_curr (ri_janus r))) \<and>
           p_next (ri_janus r') = p_next (ri_janus r) \<and>
           sim_t r' = sim_t r"
proof -
  have l: "sim_N r \<le> length (cells (p_prev (ri_janus r)))"
          "sim_N r \<le> length (cells (p_curr (ri_janus r)))"
          "sim_N r \<le> length (cells (p_prevrecalc (ri_janus r)))"
    using assms by (simp_all add: flip_ready_def)
  have "reb_integrator_janus_flip r = Inr (flip_value r)"
    using assms by (rule flip_Inr)
  moreover have "take (sim_N r) (cells (p_prev (ri_janus (flip_value r)))) = take (sim_N r) (cells (p_curr (ri_janus r)))"
    using l by (simp add: flip_value_def Let_def cells_store)
  moreover have "take (sim_N r) (cells (p_curr (ri_janus (flip_value r)))) = take (sim_N r) (cells (p_prev (ri_janus r)))"
    using l by (simp add: flip_value_def Let_def cells_store)
  moreover have "drop (sim_N r) (cells (p_prev (ri_janus (flip_value r)))) = drop (sim_N r) (cells (p_prev (ri_janus r)))"
    using l by (simp add: flip_value_def Let_def cells_store)
  moreover have "drop (sim_N r) (cells (p_curr (ri_janus (flip_value r)))) = drop (sim_N r) (cells (p_curr (ri_janus r)))"
    using l by (simp add: flip_value_def Let_def cells_store)
  moreover have "take (sim_N r) (cells (p_prevrecalc (ri_janus (flip_value r)))) = take (sim_N r) (cells (p_curr (ri_janus r)))"
    using l by (simp add: flip_value_def Let_def cells_store)
  moreover have "p_next (ri_janus (flip_value r)) = p_next (ri_janus r)"
    by (simp add: flip_value_def Let_def)
  moreover have "sim_t (flip_value r) = sim_t r"
    by (simp add: flip_value_def Let_def)
  ultimately show ?thesis by blast
qed

theorem flip_exchanges_prev_curr_witness:
  "flip_ready demo_sim \<and>
   (\<exists>r'. reb_integrator_janus_flip demo_sim = Inr r' \<and>
      take (sim_N demo_sim) (cells (p_prev (ri_janus r'))) = take (sim_N demo_sim) (cells (p_curr (ri_janus demo_sim))) \<and>
      take (sim_N demo_sim) (cells (p_curr (ri_janus r'))) = take (sim_N demo_sim) (cells (p_prev (ri_janus demo_sim))) \<and>
      drop (sim_N demo_sim) (cells (p_prev (ri_janus r'))) = drop (sim_N demo_sim) (cells (p_prev (ri_janus demo_sim))) \<and>
      drop (sim_N demo_sim) (cells (p_curr (ri_janus r'))) = drop (sim_N demo_sim) (cells (p_curr (ri_janus demo_sim))) \<and>
      take (sim_N demo_sim) (cells (p_prevrecalc (ri_janus r'))) = take (sim_N demo_sim) (cells (p_curr (ri_janus demo_sim))) \<and>
      p_next (ri_janus r') = p_next (ri_janus demo_sim) \<and>
      sim_t r' = sim_t demo_sim)"
  using flip_exchanges_prev_curr [OF flip_ready_demo] flip_ready_demo by simp

text \<open>
  Claim C9. Two flips in a row, on buffers that hold at least \<open>N\<close> cells, return without
  a fault and give back \<open>p_prev\<close> and \<open>p_curr\<close> as they were before the first flip; the
  whole state is the original one except for the contents of the scratch buffer
  \<open>p_prevrecalc\<close>, which is again only the scratch of the exchange.
\<close>

theorem flip_involution:
  fixes r :: "('a::len) word reb_simulation"
  assumes "flip_ready r"
  shows "\<exists>r''. and_then (reb_integrator_janus_flip r) reb_integrator_janus_flip = Inr r'' \<and>
           p_prev (ri_janus r'') = p_prev (ri_janus r) \<and>
           p_curr (ri_janus r'') = p_curr (ri_janus r) \<and>
           r'' = r\<lparr>ri_janus := (ri_janus r)\<lparr>p_prevrecalc := p_prevrecalc (ri_janus r'')\<rparr>\<rparr>"
proof -
  have "and_then (reb_integrator_janus_flip r) reb_integrator_janus_flip = Inr (flip_value (flip_value r))"
    using assms by (simp add: flip_Inr and_then_Inr flip_ready_flip_value)
  then show ?thesis
    by (simp add: flip_value_twice [OF assms])
qed

theorem flip_involution_witness:
  "flip_ready demo_sim \<and>
   (\<exists>r''. and_then (reb_integrator_janus_flip demo_sim) reb_integrator_janus_flip = Inr r'' \<and>
           p_prev (ri_janus r'') = p_prev (ri_janus demo_sim) \<and>
           p_curr (ri_janus r'') = p_curr (ri_janus demo_sim) \<and>
           r'' = demo_sim\<lparr>ri_janus := (ri_janus demo_sim)\<lparr>p_prevrecalc := p_prevrecalc (ri_janus r'')\<rparr>\<rparr>)"
  using flip_involution [OF flip_ready_demo] flip_ready_demo by simp

section \<open>Reset\<close>

lemma reset_value:
  "reb_integrator_janus_reset r
   = r\<lparr>ri_janus := (ri_janus r)\<lparr>allocated_N := 0, p_prev := None, p_prevrecalc := None, p_curr := None\<rparr>\<rparr>"
  by (cases r; cases "ri_janus r") (simp add: reb_integrator_janus_reset_def Let_def)

lemma reset_idempotent:
  "reb_integrator_janus_reset (reb_integrator_janus_reset r) = reb_integrator_janus_reset r"
  by (simp add: reset_value)

lemma reset_keeps_p_next: "p_next (ri_janus (reb_integrator_janus_reset r)) = p_next (ri_janus r)"
  by (simp add: reset_value)

text \<open>
  Claim C3. \<open>reb_integrator_janus_reset\<close> sets \<open>allocated_N\<close> to zero and releases
  \<open>p_prev\<close>, \<open>p_prevrecalc\<close> and \<open>p_curr\<close>, and it is idempotent (\<open>reset_idempotent\<close>);
  but it never releases \<open>p_next\<close> (\<open>reset_keeps_p_next\<close>). On the concrete simulation,
  whose four buffers are allocated, \<open>p_next\<close> is still allocated after the reset.
\<close>

theorem reset_leaves_p_next_allocated:
  "p_next (ri_janus (reb_integrator_janus_reset demo_sim)) = Some [cell6 7 7 7 7 7 7] \<and>
   p_prev (ri_janus (reb_integrator_janus_reset demo_sim)) = None \<and>
   p_curr (ri_janus (reb_integrator_janus_reset demo_sim)) = None \<and>
   p_prevrecalc (ri_janus (reb_integrator_janus_reset demo_sim)) = None \<and>
   allocated_N (ri_janus (reb_integrator_janus_reset demo_sim)) = 0"
  by (simp add: reset_value demo_sim_def)

section \<open>Bootstrap\<close>

lemma length_cells_realloc: "length (cells (realloc fill p n)) = n"
  by (simp add: realloc_def cells_def)

lemma snapshot_Inr: "n \<le> length src \<Longrightarrow> snapshot src n = Inr (take n src)"
  by (simp add: snapshot_def)

lemma store_Some: "store (Some ys) xs = Some xs"
  by (simp add: store_def)

lemma realloc_Some: "\<exists>ys. realloc fill p n = Some ys \<and> length ys = n"
  by (simp add: realloc_def)

lemma janus_bootstrap_Inr:
  fixes r :: "('a::len) word reb_simulation" and rnd reb_step fresh dt N sc
  defines "r1 \<equiv> reb_step (bootstrap_probe_input rnd fresh dt N sc r)"
  assumes ps: "N \<le> length (particles r)"
    and ps1: "N \<le> length (particles r1)"
    and prv: "N \<le> length (cells (p_prev (ri_janus r1)))"
  shows "janus_bootstrap rnd reb_step fresh t dt N sc r = Inr (bootstrap_value rnd reb_step fresh t dt N sc r)"
proof -
  obtain cs where cs: "realloc (fresh 3) (p_curr (ri_janus r)) N = Some cs" and lcs: "length cs = N"
    using realloc_Some by blast
  have a: "snapshot (particles r) N = Inr (take N (particles r))"
    using ps by (rule snapshot_Inr)
  have b: "to_int rnd cs (particles r) N sc
           = Inr (map (\<lambda>i. to_int_cell rnd sc (particles r ! i) (cs ! i)) [0..<N])"
    using to_int_Inr [where N=N and ps="particles r" and psi=cs and sc=sc and rnd=rnd] ps lcs by simp
  have c: "to_int rnd (cells (p_prev (ri_janus r1))) (particles r1) N sc
           = Inr (map (\<lambda>i. to_int_cell rnd sc (particles r1 ! i) (cells (p_prev (ri_janus r1)) ! i)) [0..<N]
                  @ drop N (cells (p_prev (ri_janus r1))))"
    using ps1 prv by (rule to_int_Inr)
  have d: "memcpy (particles r1) (take N (particles r)) N = Inr (take N (particles r) @ drop N (particles r1))"
    using ps ps1 by (simp add: memcpy_def)
  have cc: "cells (Some cs) = cs" by (simp add: cells_def)
  have r1: "reb_step
             (r\<lparr>console := console r @ [''Realloc''],
                 ri_janus := (ri_janus r)
                   \<lparr>allocated_N := N,
                    p_prev := realloc (fresh 0) (p_prev (ri_janus r)) N,
                    p_next := realloc (fresh 1) (p_next (ri_janus r)) N,
                    p_prevrecalc := realloc (fresh 2) (p_prevrecalc (ri_janus r)) N,
                    p_curr := Some (map (\<lambda>i. to_int_cell rnd sc (particles r ! i) (cs ! i)) [0..<N])\<rparr>,
                 integrator := REB_INTEGRATOR_WHFAST,
                 sim_dt := - dt\<rparr>) = r1"
    by (simp add: r1_def bootstrap_probe_input_def cs cc)
  show ?thesis
    unfolding janus_bootstrap_def bootstrap_value_def
    by (simp add: Let_def a b cs cc store_Some and_then_Inr r1 c d r1_def [symmetric] del: One_nat_def)
qed

lemma keeps_janusD:
  "keeps_janus f \<Longrightarrow> ri_janus (f s) = ri_janus s"
  "keeps_janus f \<Longrightarrow> sim_N (f s) = sim_N s"
  "keeps_janus f \<Longrightarrow> length (particles (f s)) = length (particles s)"
  by (simp_all add: keeps_janus_def)




lemma ri_janus_probe_input:
  "ri_janus (bootstrap_probe_input rnd fresh dt N sc r)
   = (ri_janus r)
         \<lparr>allocated_N := N,
          p_prev := realloc (fresh 0) (p_prev (ri_janus r)) N,
          p_next := realloc (fresh 1) (p_next (ri_janus r)) N,
          p_prevrecalc := realloc (fresh 2) (p_prevrecalc (ri_janus r)) N,
          p_curr := Some (map (\<lambda>i. to_int_cell rnd sc (particles r ! i)
                                   (cells (realloc (fresh 3) (p_curr (ri_janus r)) N) ! i)) [0..<N])\<rparr>"
  by (simp add: bootstrap_probe_input_def del: One_nat_def)

lemma probe_input_fields:
  "particles (bootstrap_probe_input rnd fresh dt N sc r) = particles r"
  "sim_N (bootstrap_probe_input rnd fresh dt N sc r) = sim_N r"
  "console (bootstrap_probe_input rnd fresh dt N sc r) = console r @ [''Realloc'']"
  by (simp_all add: bootstrap_probe_input_def)

lemma janus_bootstrap_keeps:
  assumes k: "keeps_janus reb_step" and ps: "N \<le> length (particles r)"
  shows "janus_bootstrap rnd reb_step fresh t dt N sc r = Inr (bootstrap_value rnd reb_step fresh t dt N sc r)"
proof (rule janus_bootstrap_Inr [OF ps])
  show "N \<le> length (particles (reb_step (bootstrap_probe_input rnd fresh dt N sc r)))"
    using ps by (simp add: keeps_janusD [OF k] probe_input_fields)
  show "N \<le> length (cells (p_prev (ri_janus (reb_step (bootstrap_probe_input rnd fresh dt N sc r)))))"
    by (simp add: keeps_janusD [OF k] ri_janus_probe_input length_cells_realloc)
qed

lemma bootstrap_value_host:
  "sim_t (bootstrap_value rnd reb_step fresh t dt N sc r) = t"
  "sim_dt (bootstrap_value rnd reb_step fresh t dt N sc r) = dt"
  "status (bootstrap_value rnd reb_step fresh t dt N sc r) = REB_RUNNING"
  "integrator (bootstrap_value rnd reb_step fresh t dt N sc r) = REB_INTEGRATOR_JANUS"
  "particles (bootstrap_value rnd reb_step fresh t dt N sc r)
   = take N (particles r) @ drop N (particles (reb_step (bootstrap_probe_input rnd fresh dt N sc r)))"
  by (simp_all add: bootstrap_value_def Let_def)

text \<open>
  Claim C4, as amended. When the probe step leaves the integrator instance and the size
  of the particle array alone, the bootstrap returns without a fault, and afterwards the
  time and the timestep of the host and its first \<open>N\<close> particles are what they were at
  the start of the bootstrap. The run status and the integrator selector are not
  restored from a snapshot: they are set to \<open>REB_RUNNING\<close> and \<open>REB_INTEGRATOR_JANUS\<close>,
  whatever they were before.
\<close>

theorem bootstrap_restores_time_and_particles:
  fixes r :: "('a::len) word reb_simulation"
  assumes "keeps_janus reb_step" and "sim_N r \<le> length (particles r)"
  shows "\<exists>r'. janus_bootstrap rnd reb_step fresh (sim_t r) (sim_dt r) (sim_N r) (scale (ri_janus r)) r = Inr r' \<and>
           sim_t r' = sim_t r \<and> sim_dt r' = sim_dt r \<and>
           take (sim_N r) (particles r') = take (sim_N r) (particles r) \<and>
           status r' = REB_RUNNING \<and> integrator r' = REB_INTEGRATOR_JANUS"
  using assms by (simp add: janus_bootstrap_keeps bootstrap_value_host)

lemma keeps_janus_demo_probe: "keeps_janus demo_probe"
  by (simp add: keeps_janus_def demo_probe_def)

theorem bootstrap_restores_time_and_particles_witness:
  "keeps_janus demo_probe \<and> sim_N demo_unallocated \<le> length (particles demo_unallocated) \<and>
   (\<exists>r'. janus_bootstrap id demo_probe demo_fresh (sim_t demo_unallocated) (sim_dt demo_unallocated)
            (sim_N demo_unallocated) (scale (ri_janus demo_unallocated)) demo_unallocated = Inr r' \<and>
           sim_t r' = sim_t demo_unallocated \<and> sim_dt r' = sim_dt demo_unallocated \<and>
           take (sim_N demo_unallocated) (particles r') = take (sim_N demo_unallocated) (particles demo_unallocated) \<and>
           status r' = REB_RUNNING \<and> integrator r' = REB_INTEGRATOR_JANUS)"
proof -
  have n: "sim_N demo_unallocated \<le> length (particles demo_unallocated)"
    by (simp add: demo_unallocated_def)
  show ?thesis
    using bootstrap_restores_time_and_particles [OF keeps_janus_demo_probe n, where fresh=demo_fresh and rnd=id]
      keeps_janus_demo_probe n by simp
qed

lemma demo_bootstrap:
  "janus_bootstrap id demo_probe demo_fresh 0 1 1 4 demo_unallocated = Inr demo_sim"
  by (simp add: janus_bootstrap_def demo_unallocated_def demo_sim_def realloc_def cells_def
      snapshot_def to_int_def read_at_def write_at_def and_then_Inr Let_def store_def
      to_int_cell_def demo_probe_def demo_particle_def drift_def demo_fresh_def cell6_def
      memcpy_def double_to_int_def)

text \<open>
  The claim as stated (the run status after Bootstrap equals the run status before it)
  fails on \<open>demo_unallocated\<close>, whose status is not \<open>REB_RUNNING\<close>: the bootstrap
  returns \<open>demo_sim\<close>, whose status is \<open>REB_RUNNING\<close>.
\<close>

theorem bootstrap_status_counterexample:
  "janus_bootstrap id demo_probe demo_fresh (sim_t demo_unallocated) (sim_dt demo_unallocated)
     (sim_N demo_unallocated) (scale (ri_janus demo_unallocated)) demo_unallocated = Inr demo_sim \<and>
   status demo_sim \<noteq> status demo_unallocated"
  using demo_bootstrap by (simp add: demo_unallocated_def demo_sim_def)

section \<open>Steps of an epoch\<close>

lemma keeps_dtD: "keeps_dt f \<Longrightarrow> sim_dt (f s) = sim_dt s"
  by (simp add: keeps_dt_def)

lemma length_decoded_particles:
  "N \<le> length ps \<Longrightarrow> length (decoded_particles rnd sc N cur ps) = length ps"
  by (simp add: decoded_particles_def)

lemma force_input_fields:
  "ri_janus (force_input rnd N sc r) = ri_janus r"
  "sim_N (force_input rnd N sc r) = sim_N r"
  "sim_dt (force_input rnd N sc r) = sim_dt r"
  "console (force_input rnd N sc r) = console r"
  "particles (force_input rnd N sc r) = decoded_particles rnd sc N (cells (p_curr (ri_janus r))) (particles r)"
  by (simp_all add: force_input_def)

lemma after_force:
  assumes "keeps_janus upd"
  shows "ri_janus (upd (force_input rnd N sc r)) = ri_janus r"
    and "sim_N (upd (force_input rnd N sc r)) = sim_N r"
    and "N \<le> length (particles r) \<Longrightarrow> length (particles (upd (force_input rnd N sc r))) = length (particles r)"
  by (simp_all add: keeps_janusD [OF assms] force_input_fields length_decoded_particles)

lemma after_force_dt: "keeps_dt upd \<Longrightarrow> sim_dt (upd (force_input rnd N sc r)) = sim_dt r"
  by (simp add: keeps_dtD force_input_fields)

lemma advance_value_fields:
  assumes "keeps_janus upd"
  shows "ri_janus (advance_value rnd upd dt N sc r)
         = (ri_janus r)
             \<lparr>p_next := store (p_next (ri_janus r)) (next_cells rnd sc dt N (upd (force_input rnd N sc r))),
              p_prev := store (p_prev (ri_janus r))
                          (take N (cells (p_curr (ri_janus r))) @ drop N (cells (p_prev (ri_janus r)))),
              p_curr := store (p_curr (ri_janus r))
                          (take N (next_cells rnd sc dt N (upd (force_input rnd N sc r)))
                           @ drop N (cells (p_curr (ri_janus r))))\<rparr>"
    and "sim_N (advance_value rnd upd dt N sc r) = sim_N r"
    and "N \<le> length (particles r) \<Longrightarrow> length (particles (advance_value rnd upd dt N sc r)) = length (particles r)"
  by (simp_all add: advance_value_def Let_def after_force [OF assms])

lemma advance_value_dt: "keeps_dt upd \<Longrightarrow> sim_dt (advance_value rnd upd dt N sc r) = sim_dt r"
  by (simp add: advance_value_def Let_def after_force_dt)


lemma length_next_cells_force:
  assumes "keeps_janus upd" "N \<le> length (cells (p_next (ri_janus r)))"
  shows "length (next_cells rnd sc dt N (upd (force_input rnd N sc r))) = length (cells (p_next (ri_janus r)))"
  using assms(2) by (simp add: next_cells_def after_force [OF assms(1)])

lemma part1_ready:
  assumes r: "step_ready r" and k: "keeps_janus upd"
  shows "reb_integrator_janus_part1 rnd reb_step upd fresh r
         = Inr (advance_value rnd upd (sim_dt r) (sim_N r) (scale (ri_janus r)) r)"
proof -
  have "janus_advance rnd upd (sim_dt r) (sim_N r) (scale (ri_janus r)) r
        = Inr (advance_value rnd upd (sim_dt r) (sim_N r) (scale (ri_janus r)) r)"
    using r by (intro janus_advance_Inr) (simp_all add: step_ready_def after_force [OF k])
  then show ?thesis
    using r by (simp add: reb_integrator_janus_part1_def Let_def step_ready_def and_then_Inr)
qed

lemma advance_ready:
  assumes r: "step_ready r" and k: "keeps_janus upd" and d: "keeps_dt upd"
  shows "step_ready (advance_value rnd upd (sim_dt r) (sim_N r) (scale (ri_janus r)) r)"
  using r
  by (simp add: step_ready_def advance_value_fields [OF k] advance_value_dt [OF d]
      cells_store length_next_cells_force [OF k])


lemma bootstrap_value_ready:
  fixes r :: "('a::len) word reb_simulation" and rnd reb_step fresh
  assumes k: "keeps_janus reb_step" and ps: "sim_N r \<le> length (particles r)"
    and sc: "scale (ri_janus r) \<noteq> 0" and dt: "sim_dt r \<noteq> 0"
  defines "b \<equiv> bootstrap_value rnd reb_step fresh (sim_t r) (sim_dt r) (sim_N r) (scale (ri_janus r)) r"
  shows "step_ready b"
    and "console b = console (reb_step (bootstrap_probe_input rnd fresh (sim_dt r) (sim_N r) (scale (ri_janus r)) r))"
    and "sim_N b = sim_N r"
    and "sim_dt b = sim_dt r" and "scale (ri_janus b) = scale (ri_janus r)"
proof -
  let ?p = "bootstrap_probe_input rnd fresh (sim_dt r) (sim_N r) (scale (ri_janus r)) r"
  have ri: "ri_janus b = (ri_janus ?p)\<lparr>p_prev := store (p_prev (ri_janus ?p))
              (map (\<lambda>i. to_int_cell rnd (scale (ri_janus r)) (particles (reb_step ?p) ! i) (cells (p_prev (ri_janus ?p)) ! i)) [0..<sim_N r]
               @ drop (sim_N r) (cells (p_prev (ri_janus ?p))))\<rparr>"
    by (simp add: b_def bootstrap_value_def Let_def keeps_janusD [OF k])
  have lp: "length (cells (p_prev (ri_janus ?p))) = sim_N r"
    by (simp add: ri_janus_probe_input length_cells_realloc)
  have ln: "length (cells (p_next (ri_janus ?p))) = sim_N r"
    by (simp add: ri_janus_probe_input length_cells_realloc del: One_nat_def)
  have lc: "length (cells (p_curr (ri_janus ?p))) = sim_N r"
    by (simp add: ri_janus_probe_input cells_def)
  have al: "allocated_N (ri_janus ?p) = sim_N r" "scale (ri_janus ?p) = scale (ri_janus r)"
    by (simp_all add: ri_janus_probe_input del: One_nat_def)
  have n: "sim_N b = sim_N r"
    by (simp add: b_def bootstrap_value_def Let_def keeps_janusD [OF k] probe_input_fields)
  have lps: "length (particles b) = length (particles r)"
    using ps by (simp add: b_def bootstrap_value_host keeps_janusD [OF k] probe_input_fields)
  have d: "sim_dt b = sim_dt r"
    by (simp add: b_def bootstrap_value_host)
  show "step_ready b"
    using sc dt ps by (simp add: step_ready_def ri n d lps al lp ln lc cells_store)
  show "console b = console (reb_step ?p)"
    by (simp add: b_def bootstrap_value_def Let_def)
  show "sim_N b = sim_N r" by (rule n)
  show "sim_dt b = sim_dt r" by (rule d)
  show "scale (ri_janus b) = scale (ri_janus r)"
    by (simp add: ri al)
qed

lemma part1_unready:
  fixes r :: "('a::len) word reb_simulation" and rnd reb_step fresh
  assumes s: "keeps_janus reb_step" and k: "keeps_janus upd" and r: "epoch_start r"
    and a: "allocated_N (ri_janus r) \<noteq> sim_N r"
  defines "b \<equiv> bootstrap_value rnd reb_step fresh (sim_t r) (sim_dt r) (sim_N r) (scale (ri_janus r)) r"
  shows "reb_integrator_janus_part1 rnd reb_step upd fresh r
         = Inr (advance_value rnd upd (sim_dt b) (sim_N b) (scale (ri_janus b)) b)"
    and "step_ready b"
proof -
  have ps: "sim_N r \<le> length (particles r)" and sc: "scale (ri_janus r) \<noteq> 0" and dt: "sim_dt r \<noteq> 0"
    using r by (simp_all add: epoch_start_def)
  have bb: "janus_bootstrap rnd reb_step fresh (sim_t r) (sim_dt r) (sim_N r) (scale (ri_janus r)) r = Inr b"
    unfolding b_def using s ps by (rule janus_bootstrap_keeps)
  note br = bootstrap_value_ready [OF s ps sc dt, where fresh=fresh and rnd=rnd, folded b_def]
  have "janus_advance rnd upd (sim_dt r) (sim_N r) (scale (ri_janus r)) b
        = Inr (advance_value rnd upd (sim_dt b) (sim_N b) (scale (ri_janus b)) b)"
    using part1_ready [OF br(1) k, where reb_step=reb_step and fresh=fresh and rnd=rnd] br(1)
    by (simp add: reb_integrator_janus_part1_def Let_def step_ready_def and_then_Inr br(3,4,5))
  then show "reb_integrator_janus_part1 rnd reb_step upd fresh r
        = Inr (advance_value rnd upd (sim_dt b) (sim_N b) (scale (ri_janus b)) b)"
    using a by (simp add: reb_integrator_janus_part1_def Let_def bb and_then_Inr)
  show "step_ready b" by (rule br(1))
qed


lemma keeps_janus_demo_force: "keeps_janus demo_force"
  by (simp add: keeps_janus_def demo_force_def)



lemma keeps_dt_demo_force: "keeps_dt demo_force"
  by (simp add: keeps_dt_def demo_force_def)

lemma epoch_start_demo_unallocated: "epoch_start demo_unallocated"
  by (simp add: epoch_start_def demo_unallocated_def)




section \<open>Division by zero\<close>

lemma no_div_fault_Inr: "no_div_fault (Inr v)"
  by (simp add: no_div_fault_def)

lemma no_div_fault_and_then:
  "no_div_fault m \<Longrightarrow> (\<And>v. no_div_fault (f v)) \<Longrightarrow> no_div_fault (and_then m f)"
  by (cases m) (simp_all add: no_div_fault_def and_then_def)

lemma no_div_fault_for_range:
  "(\<And>i s. no_div_fault (body i s)) \<Longrightarrow> no_div_fault (for_range js body s)"
  by (induction js arbitrary: s) (simp_all add: no_div_fault_Inr no_div_fault_and_then)

lemma no_div_fault_access:
  "no_div_fault (read_at xs i)" "no_div_fault (write_at xs i v)"
  "no_div_fault (memcpy dst src n)" "no_div_fault (snapshot src n)"
  by (simp_all add: no_div_fault_def read_at_def write_at_def memcpy_def snapshot_def)

lemma no_div_fault_fdiv: "b \<noteq> 0 \<Longrightarrow> no_div_fault (fdiv rnd a b)"
  by (simp add: no_div_fault_def fdiv_def)

lemmas ndf_intros = no_div_fault_Inr no_div_fault_and_then no_div_fault_for_range
  no_div_fault_access no_div_fault_fdiv

lemma no_div_fault_to_int: "no_div_fault (to_int rnd psi ps N sc)"
  unfolding to_int_def by (intro ndf_intros)

lemma no_div_fault_to_double: "sc \<noteq> 0 \<Longrightarrow> no_div_fault (to_double rnd ps psi N sc)"
  unfolding to_double_def to_double_cell_def by (intro ndf_intros)

lemma no_div_fault_update: "no_div_fault (janus_update rnd nxt prv cur ps N sc dt)"
  unfolding janus_update_def by (intro ndf_intros)

lemma no_div_fault_velocity:
  "sc \<noteq> 0 \<Longrightarrow> dt \<noteq> 0 \<Longrightarrow> no_div_fault (janus_velocity rnd ps nxt prv N sc dt)"
  unfolding janus_velocity_def janus_velocity_cell_def janus_velocity_coord_def
  by (intro ndf_intros) simp_all

lemma no_div_fault_bootstrap: "no_div_fault (janus_bootstrap rnd reb_step fresh t dt N sc r)"
  unfolding janus_bootstrap_def Let_def by (intro ndf_intros no_div_fault_to_int)

lemma no_div_fault_advance:
  "sc \<noteq> 0 \<Longrightarrow> dt \<noteq> 0 \<Longrightarrow> no_div_fault (janus_advance rnd upd dt N sc r)"
  unfolding janus_advance_def Let_def
  by (intro ndf_intros no_div_fault_to_double no_div_fault_update no_div_fault_velocity)

lemma no_div_fault_part1:
  "scale (ri_janus r) \<noteq> 0 \<Longrightarrow> sim_dt r \<noteq> 0 \<Longrightarrow>
   no_div_fault (reb_integrator_janus_part1 rnd reb_step upd fresh r)"
  unfolding reb_integrator_janus_part1_def Let_def
  by (intro ndf_intros no_div_fault_advance) (simp_all add: no_div_fault_Inr no_div_fault_bootstrap)

lemma for_range_first_fault:
  "0 < n \<Longrightarrow> body 0 s = Inl e \<Longrightarrow> for_range [0..<n] body s = Inl e"
  by (simp add: upt_conv_Cons and_then_Inl)

lemma to_double_zero_scale:
  assumes "0 < N" "N \<le> length ps" "N \<le> length psi"
  shows "to_double rnd ps psi N 0 = Inl Division_by_zero"
  unfolding to_double_def
  by (rule for_range_first_fault)
     (use assms in \<open>auto simp: read_at_def and_then_Inr and_then_Inl to_double_cell_def fdiv_def\<close>)

lemma janus_velocity_zero_dt:
  assumes "sc \<noteq> 0" "0 < N" "N \<le> length ps" "N \<le> length nxt" "N \<le> length prv"
  shows "janus_velocity rnd ps nxt prv N sc 0 = Inl Division_by_zero"
  unfolding janus_velocity_def
  by (rule for_range_first_fault)
     (use assms in \<open>auto simp: read_at_def and_then_Inr and_then_Inl janus_velocity_cell_def
        janus_velocity_coord_def fdiv_def\<close>)

lemma part1_division_fault:
  fixes r :: "('a::len) word reb_simulation"
  assumes k: "keeps_janus upd" and b: "buffers_ready r" and n: "0 < sim_N r"
    and z: "scale (ri_janus r) = 0 \<or> sim_dt r = 0"
  shows "reb_integrator_janus_part1 rnd reb_step upd fresh r = Inl Division_by_zero"
proof -
  let ?N = "sim_N r" and ?sc = "scale (ri_janus r)"
  let ?r1 = "upd (force_input rnd ?N ?sc r)"
  have l: "allocated_N (ri_janus r) = ?N" "?N \<le> length (particles r)"
    "?N \<le> length (cells (p_prev (ri_janus r)))" "?N \<le> length (cells (p_curr (ri_janus r)))"
    "?N \<le> length (cells (p_next (ri_janus r)))"
    using b by (simp_all add: buffers_ready_def)
  have p: "reb_integrator_janus_part1 rnd reb_step upd fresh r = janus_advance rnd upd (sim_dt r) ?N ?sc r"
    using l by (simp add: reb_integrator_janus_part1_def Let_def and_then_Inr)
  show ?thesis
  proof (cases "?sc = 0")
    case True
    have "to_double rnd (particles r) (cells (p_curr (ri_janus r))) ?N ?sc = Inl Division_by_zero"
      unfolding True using n l(2,4) by (rule to_double_zero_scale)
    then show ?thesis
      by (simp add: p janus_advance_def and_then_Inl)
  next
    case False
    then have dt: "sim_dt r = 0" using z by simp
    have a: "to_double rnd (particles r) (cells (p_curr (ri_janus r))) ?N ?sc
             = Inr (decoded_particles rnd ?sc ?N (cells (p_curr (ri_janus r))) (particles r))"
      using False l(2,4) by (rule to_double_Inr)
    have u: "janus_update rnd (cells (p_next (ri_janus ?r1))) (cells (p_prev (ri_janus ?r1)))
               (cells (p_curr (ri_janus ?r1))) (particles ?r1) ?N ?sc 0 = Inr (next_cells rnd ?sc 0 ?N ?r1)"
      unfolding next_cells_def
      by (rule janus_update_Inr) (use l in \<open>simp_all add: after_force [OF k]\<close>)
    have ln: "length (next_cells rnd ?sc 0 ?N ?r1) = length (cells (p_next (ri_janus ?r1)))"
      using l by (simp add: length_next_cells after_force [OF k])
    have cn: "cells (store (p_next (ri_janus ?r1)) (next_cells rnd ?sc 0 ?N ?r1)) = next_cells rnd ?sc 0 ?N ?r1"
      using ln by (rule cells_store)
    have v: "janus_velocity rnd (particles ?r1) (next_cells rnd ?sc 0 ?N ?r1) (cells (p_prev (ri_janus ?r1))) ?N ?sc 0
             = Inl Division_by_zero"
      using False n by (rule janus_velocity_zero_dt) (use l ln in \<open>simp_all add: after_force [OF k]\<close>)
    show ?thesis
      by (simp add: p dt janus_advance_def a and_then_Inr Let_def force_input_def [symmetric] u cn v and_then_Inl)
  qed
qed

text \<open>
  Claim C10. The divisors of \<open>to_double\<close> and of the velocity loop are the scale, the
  constant 2 and the timestep. When scale and timestep are not zero, the step never
  ends in the division fault, in any state and with any collaborators. When one of them
  is zero, the step of an instance whose buffers are ready for \<open>N > 0\<close> particles ends in
  the division fault.
\<close>

theorem division_fault_only_without_preconditions:
  fixes r q :: "('a::len) word reb_simulation"
  shows "(scale (ri_janus r) \<noteq> 0 \<and> sim_dt r \<noteq> 0 \<longrightarrow>
            reb_integrator_janus_part1 rnd reb_step upd fresh r \<noteq> Inl Division_by_zero) \<and>
         (keeps_janus upd \<and> buffers_ready q \<and> 0 < sim_N q \<and> (scale (ri_janus q) = 0 \<or> sim_dt q = 0) \<longrightarrow>
            reb_integrator_janus_part1 rnd reb_step upd fresh q = Inl Division_by_zero)"
  using no_div_fault_part1 [where r=r and reb_step=reb_step and upd=upd and fresh=fresh and rnd=rnd]
    part1_division_fault [where upd=upd and r=q and reb_step=reb_step and fresh=fresh and rnd=rnd]
  by (simp add: no_div_fault_def)

theorem division_fault_only_without_preconditions_witness:
  "(scale (ri_janus demo_sim) \<noteq> 0 \<and> sim_dt demo_sim \<noteq> 0 \<and>
      reb_integrator_janus_part1 id demo_probe demo_force demo_fresh demo_sim \<noteq> Inl Division_by_zero) \<and>
   (keeps_janus demo_force \<and> buffers_ready demo_still \<and> 0 < sim_N demo_still \<and>
      (scale (ri_janus demo_still) = 0 \<or> sim_dt demo_still = 0) \<and>
      reb_integrator_janus_part1 id demo_probe demo_force demo_fresh demo_still = Inl Division_by_zero)"
proof -
  have a: "scale (ri_janus demo_sim) \<noteq> 0 \<and> sim_dt demo_sim \<noteq> 0"
    by (simp add: demo_sim_def)
  have b: "buffers_ready demo_still \<and> 0 < sim_N demo_still \<and>
           (scale (ri_janus demo_still) = 0 \<or> sim_dt demo_still = 0)"
    by (simp add: buffers_ready_def demo_still_def demo_sim_def cells_def)
  show ?thesis
    using division_fault_only_without_preconditions
            [where r=demo_sim and reb_step=demo_probe and upd=demo_force and fresh=demo_fresh
               and q=demo_still and rnd=id]
      a b keeps_janus_demo_force
    by simp
qed

section \<open>The integer update\<close>

lemma cell_position_update:
  "cell_position (janus_update_cell rnd sc dt a b p q)
   = next_position rnd sc dt (cell_position a) (cell_position b) (acceleration p)"
  by (simp add: cell_position_def janus_update_cell_def next_position_def acceleration_def)

lemma length_positions: "N \<le> length (cells p) \<Longrightarrow> length (positions N p) = N"
  by (simp add: positions_def)

lemma length_accelerations: "N \<le> length ps \<Longrightarrow> length (accelerations N ps) = N"
  by (simp add: accelerations_def)

lemma positions_nth: "i < N \<Longrightarrow> N \<le> length (cells p) \<Longrightarrow> positions N p ! i = cell_position (cells p ! i)"
  by (simp add: positions_def)

lemma accelerations_nth: "i < N \<Longrightarrow> N \<le> length ps \<Longrightarrow> accelerations N ps ! i = acceleration (ps ! i)"
  by (simp add: accelerations_def)

lemma positions_store_take:
  "N \<le> length xs \<Longrightarrow> N \<le> length (cells p) \<Longrightarrow>
   positions N (store p (take N xs @ drop N (cells p))) = map cell_position (take N xs)"
  by (simp add: positions_def cells_store)

lemma positions_next_cells:
  assumes "N \<le> length (cells (p_prev (ri_janus s)))" "N \<le> length (cells (p_curr (ri_janus s)))"
    "N \<le> length (particles s)"
  shows "map cell_position (take N (next_cells rnd sc dt N s))
         = next_positions rnd sc dt (positions N (p_prev (ri_janus s))) (positions N (p_curr (ri_janus s)))
             (accelerations N (particles s))"
  using assms
  by (simp add: next_cells_def next_positions_def length_positions cell_position_update
      positions_nth accelerations_nth)

lemma advance_positions:
  fixes r :: "('a::len) word reb_simulation" and rnd
  assumes r: "step_ready r" and k: "keeps_janus upd"
  defines "a \<equiv> advance_value rnd upd (sim_dt r) (sim_N r) (scale (ri_janus r)) r"
  shows "positions (sim_N r) (p_prev (ri_janus a)) = positions (sim_N r) (p_curr (ri_janus r))"
    and "positions (sim_N r) (p_curr (ri_janus a))
         = next_positions rnd (scale (ri_janus r)) (sim_dt r)
             (positions (sim_N r) (p_prev (ri_janus r))) (positions (sim_N r) (p_curr (ri_janus r)))
             (accelerations (sim_N r) (particles (upd (force_input rnd (sim_N r) (scale (ri_janus r)) r))))"
    and "positions (sim_N r) (p_next (ri_janus a)) = positions (sim_N r) (p_curr (ri_janus a))"
proof -
  let ?N = "sim_N r" and ?sc = "scale (ri_janus r)"
  let ?s = "upd (force_input rnd ?N ?sc r)"
  let ?nx = "next_cells rnd ?sc (sim_dt r) ?N ?s"
  have l: "?N \<le> length (particles r)" "?N \<le> length (cells (p_prev (ri_janus r)))"
    "?N \<le> length (cells (p_curr (ri_janus r)))" "?N \<le> length (cells (p_next (ri_janus r)))"
    using r by (simp_all add: step_ready_def)
  have ln: "length ?nx = length (cells (p_next (ri_janus r)))"
    using k l(4) by (rule length_next_cells_force)
  have pn: "map cell_position (take ?N ?nx)
            = next_positions rnd ?sc (sim_dt r) (positions ?N (p_prev (ri_janus r)))
                (positions ?N (p_curr (ri_janus r))) (accelerations ?N (particles ?s))"
    using positions_next_cells [where N="?N" and s="?s" and sc="?sc" and dt="sim_dt r" and rnd=rnd] l by (simp add: after_force [OF k])
  show "positions ?N (p_prev (ri_janus a)) = positions ?N (p_curr (ri_janus r))"
    using l by (simp add: a_def advance_value_fields [OF k] positions_store_take) (simp add: positions_def)
  show c: "positions ?N (p_curr (ri_janus a))
        = next_positions rnd ?sc (sim_dt r) (positions ?N (p_prev (ri_janus r)))
            (positions ?N (p_curr (ri_janus r))) (accelerations ?N (particles ?s))"
    using l ln by (simp add: a_def advance_value_fields [OF k] positions_store_take pn)
  show "positions ?N (p_next (ri_janus a)) = positions ?N (p_curr (ri_janus a))"
    unfolding c using l ln by (simp add: a_def advance_value_fields [OF k] positions_def cells_store pn)
qed

lemma next_cells_nth:
  "i < N \<Longrightarrow> next_cells rnd sc dt N s ! i
     = janus_update_cell rnd sc dt (cells (p_prev (ri_janus s)) ! i) (cells (p_curr (ri_janus s)) ! i)
         (particles s ! i) (cells (p_next (ri_janus s)) ! i)"
  by (simp add: next_cells_def nth_append)

text \<open>
  Claim C2, as amended. In a step of an instance whose buffers are ready, with
  coordinates no wider than the 128-bit accumulator, the cell of body \<open>i\<close> in \<open>p_next\<close>
  gets, on each axis on its own, \<open>- prev + 2 * curr\<close> plus the forcing term. The forcing
  term is the product \<open>((scale * dt) * dt) * acceleration\<close> in double arithmetic, each
  of its three multiplications rounded to a double, converted to an integer once, by
  truncation towards zero; the sum is taken in the wrap-around arithmetic of the
  coordinates. The rotation then makes this cell the cell of \<open>p_curr\<close> and the former
  cell of \<open>p_curr\<close> the cell of \<open>p_prev\<close>.
\<close>

theorem next_is_truncated_update:
  fixes r :: "('a::len) word reb_simulation"
  assumes w: "LENGTH('a) \<le> 128" and r: "step_ready r" and k: "keeps_janus upd" and i: "i < sim_N r"
  shows "\<exists>r'. reb_integrator_janus_part1 rnd reb_step upd fresh r = Inr r' \<and>
           ix (cells (p_next (ri_janus r')) ! i)
             = - ix (cells (p_prev (ri_janus r)) ! i) + 2 * ix (cells (p_curr (ri_janus r)) ! i)
               + word_of_int (double_to_int (rnd (rnd (rnd (scale (ri_janus r) * sim_dt r) * sim_dt r)
                   * pax (particles (upd (force_input rnd (sim_N r) (scale (ri_janus r)) r)) ! i)))) \<and>
           iy (cells (p_next (ri_janus r')) ! i)
             = - iy (cells (p_prev (ri_janus r)) ! i) + 2 * iy (cells (p_curr (ri_janus r)) ! i)
               + word_of_int (double_to_int (rnd (rnd (rnd (scale (ri_janus r) * sim_dt r) * sim_dt r)
                   * pay (particles (upd (force_input rnd (sim_N r) (scale (ri_janus r)) r)) ! i)))) \<and>
           iz (cells (p_next (ri_janus r')) ! i)
             = - iz (cells (p_prev (ri_janus r)) ! i) + 2 * iz (cells (p_curr (ri_janus r)) ! i)
               + word_of_int (double_to_int (rnd (rnd (rnd (scale (ri_janus r) * sim_dt r) * sim_dt r)
                   * paz (particles (upd (force_input rnd (sim_N r) (scale (ri_janus r)) r)) ! i)))) \<and>
           cells (p_curr (ri_janus r')) ! i = cells (p_next (ri_janus r')) ! i \<and>
           cells (p_prev (ri_janus r')) ! i = cells (p_curr (ri_janus r)) ! i"
proof -
  let ?N = "sim_N r" and ?sc = "scale (ri_janus r)"
  let ?s = "upd (force_input rnd ?N ?sc r)"
  let ?nx = "next_cells rnd ?sc (sim_dt r) ?N ?s"
  let ?a = "advance_value rnd upd (sim_dt r) ?N ?sc r"
  have l: "?N \<le> length (cells (p_prev (ri_janus r)))"
    "?N \<le> length (cells (p_curr (ri_janus r)))" "?N \<le> length (cells (p_next (ri_janus r)))"
    using r by (simp_all add: step_ready_def)
  have ln: "length ?nx = length (cells (p_next (ri_janus r)))"
    using k l(3) by (rule length_next_cells_force)
  have p: "reb_integrator_janus_part1 rnd reb_step upd fresh r = Inr ?a"
    using r k by (rule part1_ready)
  have n: "cells (p_next (ri_janus ?a)) = ?nx"
    using ln by (simp add: advance_value_fields [OF k] cells_store)
  have c: "cells (p_curr (ri_janus ?a)) ! i = ?nx ! i"
    using l ln i by (simp add: advance_value_fields [OF k] cells_store nth_append)
  have v: "cells (p_prev (ri_janus ?a)) ! i = cells (p_curr (ri_janus r)) ! i"
    using l i by (simp add: advance_value_fields [OF k] cells_store nth_append)
  have x: "?nx ! i = janus_update_cell rnd ?sc (sim_dt r) (cells (p_prev (ri_janus r)) ! i)
             (cells (p_curr (ri_janus r)) ! i) (particles ?s ! i) (cells (p_next (ri_janus r)) ! i)"
    using i by (simp add: next_cells_nth after_force [OF k])
  show ?thesis
    by (simp add: p n c v x janus_update_cell_def janus_next_coord_eq [OF w])
qed

lemma length_64: "LENGTH(64) \<le> 128"
  by simp

lemma step_ready_demo_sim: "step_ready demo_sim"
  by (simp add: step_ready_def demo_sim_def cells_def demo_particle_def)

theorem next_is_truncated_update_witness:
  "LENGTH(64) \<le> 128 \<and> step_ready demo_sim \<and> keeps_janus demo_force \<and> 0 < sim_N demo_sim \<and>
   (\<exists>r'. reb_integrator_janus_part1 id demo_probe demo_force demo_fresh demo_sim = Inr r' \<and>
           ix (cells (p_next (ri_janus r')) ! 0)
             = - ix (cells (p_prev (ri_janus demo_sim)) ! 0) + 2 * ix (cells (p_curr (ri_janus demo_sim)) ! 0)
               + word_of_int (double_to_int (id (id (id (scale (ri_janus demo_sim) * sim_dt demo_sim) * sim_dt demo_sim)
                   * pax (particles (demo_force (force_input id (sim_N demo_sim) (scale (ri_janus demo_sim)) demo_sim)) ! 0)))) \<and>
           iy (cells (p_next (ri_janus r')) ! 0)
             = - iy (cells (p_prev (ri_janus demo_sim)) ! 0) + 2 * iy (cells (p_curr (ri_janus demo_sim)) ! 0)
               + word_of_int (double_to_int (id (id (id (scale (ri_janus demo_sim) * sim_dt demo_sim) * sim_dt demo_sim)
                   * pay (particles (demo_force (force_input id (sim_N demo_sim) (scale (ri_janus demo_sim)) demo_sim)) ! 0)))) \<and>
           iz (cells (p_next (ri_janus r')) ! 0)
             = - iz (cells (p_prev (ri_janus demo_sim)) ! 0) + 2 * iz (cells (p_curr (ri_janus demo_sim)) ! 0)
               + word_of_int (double_to_int (id (id (id (scale (ri_janus demo_sim) * sim_dt demo_sim) * sim_dt demo_sim)
                   * paz (particles (demo_force (force_input id (sim_N demo_sim) (scale (ri_janus demo_sim)) demo_sim)) ! 0)))) \<and>
           cells (p_curr (ri_janus r')) ! 0 = cells (p_next (ri_janus r')) ! 0 \<and>
           cells (p_prev (ri_janus r')) ! 0 = cells (p_curr (ri_janus demo_sim)) ! 0)"
proof -
  have i: "0 < sim_N demo_sim" by (simp add: demo_sim_def)
  show ?thesis
    using next_is_truncated_update [OF length_64 step_ready_demo_sim keeps_janus_demo_force i,
        where reb_step=demo_probe and fresh=demo_fresh and rnd=id]
      length_64 step_ready_demo_sim keeps_janus_demo_force i
    by simp
qed

lemma upt_one: "[0..<1] = [0]"
  by simp

lemma demo_force_input:
  "particles (demo_force (force_input id 1 4 demo_sim))
   = [\<lparr>px = 1, py = 0, pz = 0, pvx = 0, pvy = 1, pvz = 0, pax = - (3 / 16), pay = 0, paz = 0, pm = 1\<rparr>]"
  by (simp add: demo_force_def force_input_def decoded_particles_def decoded_def demo_sim_def cells_def
      cell6_def demo_particle_def pull_def)

lemma demo_sim_fields:
  "sim_N demo_sim = 1" "scale (ri_janus demo_sim) = 4" "sim_dt demo_sim = 1"
  "cells (p_prev (ri_janus demo_sim)) = [cell6 4 (- 4) 0 0 4 0]"
  "cells (p_curr (ri_janus demo_sim)) = [cell6 4 0 0 0 4 0]"
  "cells (p_next (ri_janus demo_sim)) = [cell6 7 7 7 7 7 7]"
  by (simp_all add: demo_sim_def cells_def)

lemma demo_next_cells:
  "next_cells id 4 1 1 (demo_force (force_input id 1 4 demo_sim)) = [cell6 4 4 0 7 7 7]"
proof -
  have f: "double_to_int (- (3 / 4)) = 0" "double_to_int 0 = 0"
    by (simp_all add: double_to_int_def)
  have r: "ri_janus (demo_force (force_input id 1 4 demo_sim)) = ri_janus demo_sim"
    by (simp add: keeps_janusD [OF keeps_janus_demo_force] force_input_fields)
  have "janus_update_cell id 4 1 (cell6 4 (- 4) 0 0 4 0) (cell6 4 0 0 0 4 0)
          \<lparr>px = 1, py = 0, pz = 0, pvx = 0, pvy = 1, pvz = 0, pax = - (3 / 16), pay = 0, paz = 0, pm = 1\<rparr>
          (cell6 7 7 7 7 7 7) = cell6 4 4 0 7 7 7"
    by (simp add: janus_update_cell_def janus_next_coord_eq [OF length_64] f cell6_def)
  then show ?thesis
    by (simp add: next_cells_def r demo_sim_fields demo_force_input upt_one del: One_nat_def)
qed

lemma demo_part1_next:
  "map_sum id (positions 1 \<circ> p_next \<circ> ri_janus)
     (reb_integrator_janus_part1 id demo_probe demo_force demo_fresh demo_sim) = Inr [(4, 4, 0)]"
  by (simp add: part1_ready [OF step_ready_demo_sim keeps_janus_demo_force]
        advance_value_fields [OF keeps_janus_demo_force] positions_def demo_sim_fields demo_next_cells
        del: One_nat_def)
     (simp add: demo_sim_def cells_def store_def cell6_def cell_position_def)

text \<open>
  The claim as stated, with the forcing term rounded to the nearest integer: on
  \<open>demo_sim\<close> the forcing term on the first axis is \<open>4 * 1 * 1 * (- 3/16) = - 3/4\<close>, a
  product of doubles that no rounding changes. The step stores \<open>- 4 + 2 * 4 + 0 = 4\<close>,
  the formula with \<open>round\<close> gives \<open>- 4 + 2 * 4 - 1 = 3\<close>.
\<close>

theorem next_is_not_rounded_counterexample:
  "map_sum id (positions 1 \<circ> p_next \<circ> ri_janus)
     (reb_integrator_janus_part1 id demo_probe demo_force demo_fresh demo_sim) = Inr [(4, 4, 0)] \<and>
   rounded_next_coord id (scale (ri_janus demo_sim)) (sim_dt demo_sim)
     (ix (cells (p_prev (ri_janus demo_sim)) ! 0)) (ix (cells (p_curr (ri_janus demo_sim)) ! 0))
     (pax (particles (demo_force (force_input id 1 4 demo_sim)) ! 0)) = 3"
proof -
  have "round (- (3 / 4) :: real) = - 1"
    by (simp add: round_def)
  then show ?thesis
    by (simp add: demo_part1_next demo_force_input rounded_next_coord_def demo_sim_fields cell6_def
        del: One_nat_def)
qed

text \<open>
  The roundings of the product are part of the update. With scale 89/8, timestep 1 and
  acceleration 5/8 the exact product is 445/64, which truncates to 6; rounded to the
  nearest multiple of 1/8 it is 7, and the step stores 7.
\<close>

lemma rounding_is_observable:
  "janus_next_coord to_eighths (89 / 8) 1 (0 :: 64 word) 0 (5 / 8) = 7 \<and>
   janus_next_coord id (89 / 8) 1 (0 :: 64 word) 0 (5 / 8) = 6"
proof -
  have a: "to_eighths (89 / 8) = 89 / 8" "to_eighths (445 / 64) = 7"
    by (simp_all add: to_eighths_def round_def)
  have b: "double_to_int 7 = 7" "double_to_int (445 / 64) = 6"
    by (simp_all add: double_to_int_def)
  show ?thesis
    by (simp add: janus_next_coord_eq [OF length_64] a b)
qed

section \<open>Determinism of the integer update\<close>

lemma janus_update_cell_acc:
  "acceleration p = acceleration p' \<Longrightarrow>
   janus_update_cell rnd sc dt a b p q = janus_update_cell rnd sc dt a b p' q"
  by (simp add: janus_update_cell_def acceleration_def)

lemma next_cells_cong:
  assumes "p_prev (ri_janus s) = p_prev (ri_janus s')" "p_curr (ri_janus s) = p_curr (ri_janus s')"
    "p_next (ri_janus s) = p_next (ri_janus s')"
    "accelerations N (particles s) = accelerations N (particles s')"
    "N \<le> length (particles s)" "N \<le> length (particles s')"
  shows "next_cells rnd sc dt N s = next_cells rnd sc dt N s'"
proof -
  have "acceleration (particles s ! i) = acceleration (particles s' ! i)" if "i < N" for i
    using accelerations_nth [OF that assms(5)] accelerations_nth [OF that assms(6)] assms(4) by simp
  then have "janus_update_cell rnd sc dt a b (particles s ! i) q
             = janus_update_cell rnd sc dt a b (particles s' ! i) q" if "i < N" for i a b q
    using that by (intro janus_update_cell_acc) simp
  then show ?thesis
    unfolding next_cells_def assms(1,2,3) by auto
qed

text \<open>
  Claim C8. Two steps, of two instances whose buffers are ready, that start from the same
  scale, timestep, particle count and contents of \<open>p_prev\<close>, \<open>p_curr\<close> and \<open>p_next\<close>,
  and whose force evaluators return the same accelerations for the \<open>N\<close> particles, both
  return without a fault and leave identical buffers \<open>p_next\<close>, \<open>p_prev\<close> and \<open>p_curr\<close>,
  whatever else differs between the two states, the two probe steps and the two
  contents of fresh memory.
\<close>

theorem integer_update_deterministic:
  fixes r1 r2 :: "('a::len) word reb_simulation"
  assumes r1: "step_ready r1" and r2: "step_ready r2"
    and k1: "keeps_janus upd1" and k2: "keeps_janus upd2"
    and sc: "scale (ri_janus r1) = scale (ri_janus r2)"
    and dt: "sim_dt r1 = sim_dt r2"
    and n: "sim_N r1 = sim_N r2"
    and prv: "p_prev (ri_janus r1) = p_prev (ri_janus r2)"
    and cur: "p_curr (ri_janus r1) = p_curr (ri_janus r2)"
    and nxt: "p_next (ri_janus r1) = p_next (ri_janus r2)"
    and acc: "accelerations (sim_N r1) (particles (upd1 (force_input rnd (sim_N r1) (scale (ri_janus r1)) r1)))
              = accelerations (sim_N r2) (particles (upd2 (force_input rnd (sim_N r2) (scale (ri_janus r2)) r2)))"
  shows "\<exists>r1' r2'. reb_integrator_janus_part1 rnd step1 upd1 fresh1 r1 = Inr r1' \<and>
           reb_integrator_janus_part1 rnd step2 upd2 fresh2 r2 = Inr r2' \<and>
           p_next (ri_janus r1') = p_next (ri_janus r2') \<and>
           p_prev (ri_janus r1') = p_prev (ri_janus r2') \<and>
           p_curr (ri_janus r1') = p_curr (ri_janus r2')"
proof -
  let ?N = "sim_N r2" and ?sc = "scale (ri_janus r2)"
  have l: "?N \<le> length (particles r1)" "?N \<le> length (particles r2)"
    using r1 r2 n by (simp_all add: step_ready_def)
  have "next_cells rnd ?sc (sim_dt r2) ?N (upd1 (force_input rnd ?N ?sc r1))
        = next_cells rnd ?sc (sim_dt r2) ?N (upd2 (force_input rnd ?N ?sc r2))"
    using acc l by (intro next_cells_cong) (simp_all add: after_force [OF k1] after_force [OF k2] prv cur nxt n sc)
  then show ?thesis
    by (simp add: part1_ready [OF r1 k1] part1_ready [OF r2 k2] advance_value_fields [OF k1]
        advance_value_fields [OF k2] sc dt n prv cur nxt)
qed

lemma step_ready_demo_other: "step_ready demo_other"
  by (simp add: step_ready_def demo_other_def demo_sim_def cells_def)

theorem integer_update_deterministic_witness:
  "step_ready demo_sim \<and> step_ready demo_other \<and> keeps_janus demo_force \<and>
   scale (ri_janus demo_sim) = scale (ri_janus demo_other) \<and>
   sim_dt demo_sim = sim_dt demo_other \<and> sim_N demo_sim = sim_N demo_other \<and>
   p_prev (ri_janus demo_sim) = p_prev (ri_janus demo_other) \<and>
   p_curr (ri_janus demo_sim) = p_curr (ri_janus demo_other) \<and>
   p_next (ri_janus demo_sim) = p_next (ri_janus demo_other) \<and>
   accelerations (sim_N demo_sim)
     (particles (demo_force (force_input id (sim_N demo_sim) (scale (ri_janus demo_sim)) demo_sim)))
   = accelerations (sim_N demo_other)
       (particles (demo_force (force_input id (sim_N demo_other) (scale (ri_janus demo_other)) demo_other))) \<and>
   (\<exists>r1' r2'. reb_integrator_janus_part1 id demo_probe demo_force demo_fresh demo_sim = Inr r1' \<and>
           reb_integrator_janus_part1 id demo_probe demo_force demo_fresh demo_other = Inr r2' \<and>
           p_next (ri_janus r1') = p_next (ri_janus r2') \<and>
           p_prev (ri_janus r1') = p_prev (ri_janus r2') \<and>
           p_curr (ri_janus r1') = p_curr (ri_janus r2'))"
proof -
  have a: "scale (ri_janus demo_sim) = scale (ri_janus demo_other)"
    "sim_dt demo_sim = sim_dt demo_other" "sim_N demo_sim = sim_N demo_other"
    "p_prev (ri_janus demo_sim) = p_prev (ri_janus demo_other)"
    "p_curr (ri_janus demo_sim) = p_curr (ri_janus demo_other)"
    "p_next (ri_janus demo_sim) = p_next (ri_janus demo_other)"
    by (simp_all add: demo_other_def)
  have b: "accelerations (sim_N demo_sim)
     (particles (demo_force (force_input id (sim_N demo_sim) (scale (ri_janus demo_sim)) demo_sim)))
   = accelerations (sim_N demo_other)
       (particles (demo_force (force_input id (sim_N demo_other) (scale (ri_janus demo_other)) demo_other)))"
    by (simp add: demo_other_def demo_force_def force_input_def decoded_particles_def decoded_def
        demo_sim_def cells_def accelerations_def acceleration_def pull_def)
  have "\<exists>r1' r2'. reb_integrator_janus_part1 id demo_probe demo_force demo_fresh demo_sim = Inr r1' \<and>
           reb_integrator_janus_part1 id demo_probe demo_force demo_fresh demo_other = Inr r2' \<and>
           p_next (ri_janus r1') = p_next (ri_janus r2') \<and>
           p_prev (ri_janus r1') = p_prev (ri_janus r2') \<and>
           p_curr (ri_janus r1') = p_curr (ri_janus r2')"
    by (rule integer_update_deterministic [OF step_ready_demo_sim step_ready_demo_other
        keeps_janus_demo_force keeps_janus_demo_force a b])
  then show ?thesis
    using step_ready_demo_sim step_ready_demo_other keeps_janus_demo_force a b
    by blast
qed

section \<open>Free motion\<close>

lemma advance_cells_nth:
  fixes r :: "('a::len) word reb_simulation" and rnd
  assumes r: "step_ready r" and k: "keeps_janus upd" and i: "i < sim_N r"
  defines "a \<equiv> advance_value rnd upd (sim_dt r) (sim_N r) (scale (ri_janus r)) r"
  shows "cells (p_curr (ri_janus a)) ! i
         = janus_update_cell rnd (scale (ri_janus r)) (sim_dt r) (cells (p_prev (ri_janus r)) ! i)
             (cells (p_curr (ri_janus r)) ! i)
             (particles (upd (force_input rnd (sim_N r) (scale (ri_janus r)) r)) ! i)
             (cells (p_next (ri_janus r)) ! i)"
    and "cells (p_prev (ri_janus a)) ! i = cells (p_curr (ri_janus r)) ! i"
proof -
  let ?N = "sim_N r" and ?sc = "scale (ri_janus r)"
  let ?nx = "next_cells rnd ?sc (sim_dt r) ?N (upd (force_input rnd ?N ?sc r))"
  have l: "?N \<le> length (cells (p_prev (ri_janus r)))"
    "?N \<le> length (cells (p_curr (ri_janus r)))" "?N \<le> length (cells (p_next (ri_janus r)))"
    using r by (simp_all add: step_ready_def)
  have ln: "length ?nx = length (cells (p_next (ri_janus r)))"
    using k l(3) by (rule length_next_cells_force)
  have "cells (p_curr (ri_janus a)) ! i = ?nx ! i"
    using l ln i by (simp add: a_def advance_value_fields [OF k] cells_store nth_append)
  then show "cells (p_curr (ri_janus a)) ! i
         = janus_update_cell rnd ?sc (sim_dt r) (cells (p_prev (ri_janus r)) ! i)
             (cells (p_curr (ri_janus r)) ! i) (particles (upd (force_input rnd ?N ?sc r)) ! i)
             (cells (p_next (ri_janus r)) ! i)"
    using i by (simp add: next_cells_nth after_force [OF k])
  show "cells (p_prev (ri_janus a)) ! i = cells (p_curr (ri_janus r)) ! i"
    using l i by (simp add: a_def advance_value_fields [OF k] cells_store nth_append)
qed

lemma janus_next_coord_zero:
  "LENGTH('a::len) \<le> 128 \<Longrightarrow> sign_symmetric rnd \<Longrightarrow>
   janus_next_coord rnd sc dt (a :: 'a word) b 0 = - a + 2 * b"
  by (simp add: janus_next_coord_eq double_to_int_def sign_symmetric_zero)

lemma zero_forceD:
  assumes z: "zero_force upd" and k: "keeps_janus upd" and i: "i < sim_N r" and l: "sim_N r \<le> length (particles r)"
  shows "pax (particles (upd (force_input rnd (sim_N r) sc r)) ! i) = 0"
    and "pay (particles (upd (force_input rnd (sim_N r) sc r)) ! i) = 0"
    and "paz (particles (upd (force_input rnd (sim_N r) sc r)) ! i) = 0"
proof -
  let ?s = "force_input rnd (sim_N r) sc r"
  have n: "sim_N ?s = sim_N r" by (simp add: force_input_fields)
  have len: "i < length (take (sim_N ?s) (particles (upd ?s)))"
    using i l by (simp add: n after_force [OF k])
  have "take (sim_N ?s) (particles (upd ?s)) ! i \<in> set (take (sim_N ?s) (particles (upd ?s)))"
    using len by (rule nth_mem)
  then have "acceleration (take (sim_N ?s) (particles (upd ?s)) ! i) = (0, 0, 0)"
    using z by (simp add: zero_force_def)
  then have a: "acceleration (particles (upd ?s) ! i) = (0, 0, 0)"
    using i by (simp add: n)
  show "pax (particles (upd ?s) ! i) = 0" "pay (particles (upd ?s) ! i) = 0" "paz (particles (upd ?s) ! i) = 0"
    using a by (simp_all add: acceleration_def)
qed

lemma free_run:
  fixes r :: "('a::len) word reb_simulation"
  assumes w: "LENGTH('a) \<le> 128" and z0: "sign_symmetric rnd" and k: "keeps_janus upd" and d: "keeps_dt upd" and z: "zero_force upd"
  shows "step_ready r \<Longrightarrow> i < sim_N r \<Longrightarrow>
         \<exists>r'. run_steps rnd reb_step upd fresh n r = Inr r' \<and>
           ix (cells (p_curr (ri_janus r')) ! i) = ix (cells (p_curr (ri_janus r)) ! i)
              + of_nat n * (ix (cells (p_curr (ri_janus r)) ! i) - ix (cells (p_prev (ri_janus r)) ! i)) \<and>
           ix (cells (p_prev (ri_janus r')) ! i) = ix (cells (p_prev (ri_janus r)) ! i)
              + of_nat n * (ix (cells (p_curr (ri_janus r)) ! i) - ix (cells (p_prev (ri_janus r)) ! i)) \<and>
           iy (cells (p_curr (ri_janus r')) ! i) = iy (cells (p_curr (ri_janus r)) ! i)
              + of_nat n * (iy (cells (p_curr (ri_janus r)) ! i) - iy (cells (p_prev (ri_janus r)) ! i)) \<and>
           iy (cells (p_prev (ri_janus r')) ! i) = iy (cells (p_prev (ri_janus r)) ! i)
              + of_nat n * (iy (cells (p_curr (ri_janus r)) ! i) - iy (cells (p_prev (ri_janus r)) ! i)) \<and>
           iz (cells (p_curr (ri_janus r')) ! i) = iz (cells (p_curr (ri_janus r)) ! i)
              + of_nat n * (iz (cells (p_curr (ri_janus r)) ! i) - iz (cells (p_prev (ri_janus r)) ! i)) \<and>
           iz (cells (p_prev (ri_janus r')) ! i) = iz (cells (p_prev (ri_janus r)) ! i)
              + of_nat n * (iz (cells (p_curr (ri_janus r)) ! i) - iz (cells (p_prev (ri_janus r)) ! i))"
proof (induction n arbitrary: r)
  case 0
  then show ?case by simp
next
  case (Suc n)
  let ?a = "advance_value rnd upd (sim_dt r) (sim_N r) (scale (ri_janus r)) r"
  have p: "reb_integrator_janus_part1 rnd reb_step upd fresh r = Inr ?a"
    using Suc.prems(1) k by (rule part1_ready)
  have ra: "step_ready ?a"
    using Suc.prems(1) k d by (rule advance_ready)
  have ia: "i < sim_N ?a"
    using Suc.prems(2) by (simp add: advance_value_fields [OF k])
  have l: "sim_N r \<le> length (particles r)"
    using Suc.prems(1) by (simp add: step_ready_def)
  note zf = zero_forceD [OF z k Suc.prems(2) l]
  note c = advance_cells_nth [OF Suc.prems(1) k Suc.prems(2)]
  have cx: "ix (cells (p_curr (ri_janus ?a)) ! i)
            = - ix (cells (p_prev (ri_janus r)) ! i) + 2 * ix (cells (p_curr (ri_janus r)) ! i)"
    and cy: "iy (cells (p_curr (ri_janus ?a)) ! i)
            = - iy (cells (p_prev (ri_janus r)) ! i) + 2 * iy (cells (p_curr (ri_janus r)) ! i)"
    and cz: "iz (cells (p_curr (ri_janus ?a)) ! i)
            = - iz (cells (p_prev (ri_janus r)) ! i) + 2 * iz (cells (p_curr (ri_janus r)) ! i)"
    by (simp_all add: c(1) janus_update_cell_def zf janus_next_coord_zero [OF w z0])
  from Suc.IH [OF ra ia] obtain r' where r': "run_steps rnd reb_step upd fresh n ?a = Inr r'"
    and x: "ix (cells (p_curr (ri_janus r')) ! i) = ix (cells (p_curr (ri_janus ?a)) ! i)
              + of_nat n * (ix (cells (p_curr (ri_janus ?a)) ! i) - ix (cells (p_prev (ri_janus ?a)) ! i))"
           "ix (cells (p_prev (ri_janus r')) ! i) = ix (cells (p_prev (ri_janus ?a)) ! i)
              + of_nat n * (ix (cells (p_curr (ri_janus ?a)) ! i) - ix (cells (p_prev (ri_janus ?a)) ! i))"
    and y: "iy (cells (p_curr (ri_janus r')) ! i) = iy (cells (p_curr (ri_janus ?a)) ! i)
              + of_nat n * (iy (cells (p_curr (ri_janus ?a)) ! i) - iy (cells (p_prev (ri_janus ?a)) ! i))"
           "iy (cells (p_prev (ri_janus r')) ! i) = iy (cells (p_prev (ri_janus ?a)) ! i)
              + of_nat n * (iy (cells (p_curr (ri_janus ?a)) ! i) - iy (cells (p_prev (ri_janus ?a)) ! i))"
    and zz: "iz (cells (p_curr (ri_janus r')) ! i) = iz (cells (p_curr (ri_janus ?a)) ! i)
              + of_nat n * (iz (cells (p_curr (ri_janus ?a)) ! i) - iz (cells (p_prev (ri_janus ?a)) ! i))"
           "iz (cells (p_prev (ri_janus r')) ! i) = iz (cells (p_prev (ri_janus ?a)) ! i)
              + of_nat n * (iz (cells (p_curr (ri_janus ?a)) ! i) - iz (cells (p_prev (ri_janus ?a)) ! i))"
    by blast
  have run: "run_steps rnd reb_step upd fresh (Suc n) r = Inr r'"
    by (simp add: p and_then_Inr r')
  show ?case
    using x y zz by (simp add: p and_then_Inr r' cx cy cz c(2) algebra_simps)
qed

lemma keeps_janus_demo_no_force: "keeps_janus demo_no_force"
  by (simp add: keeps_janus_def demo_no_force_def)

lemma keeps_dt_demo_no_force: "keeps_dt demo_no_force"
  by (simp add: keeps_dt_def demo_no_force_def)

lemma zero_force_demo_no_force: "zero_force demo_no_force"
  by (auto simp: zero_force_def demo_no_force_def acceleration_def no_pull_def dest!: in_set_takeD)

lemma to_int_cell_encoded:
  "ix (to_int_cell rnd sc p q) = encoded rnd sc (px p)"
  "iy (to_int_cell rnd sc p q) = encoded rnd sc (py p)"
  "iz (to_int_cell rnd sc p q) = encoded rnd sc (pz p)"
  by (simp_all add: to_int_cell_def encoded_def)

lemma bootstrap_cells_nth:
  fixes r :: "('a::len) word reb_simulation" and rnd reb_step fresh
  assumes k: "keeps_janus reb_step" and i: "i < sim_N r"
  defines "q \<equiv> reb_step (bootstrap_probe_input rnd fresh (sim_dt r) (sim_N r) (scale (ri_janus r)) r)"
  defines "b \<equiv> bootstrap_value rnd reb_step fresh (sim_t r) (sim_dt r) (sim_N r) (scale (ri_janus r)) r"
  shows "\<exists>j. cells (p_curr (ri_janus b)) ! i = to_int_cell rnd (scale (ri_janus r)) (particles r ! i) j"
    and "\<exists>j. cells (p_prev (ri_janus b)) ! i = to_int_cell rnd (scale (ri_janus r)) (particles q ! i) j"
proof -
  let ?p = "bootstrap_probe_input rnd fresh (sim_dt r) (sim_N r) (scale (ri_janus r)) r"
  have ri: "ri_janus b = (ri_janus ?p)\<lparr>p_prev := store (p_prev (ri_janus ?p))
              (map (\<lambda>i. to_int_cell rnd (scale (ri_janus r)) (particles q ! i) (cells (p_prev (ri_janus ?p)) ! i)) [0..<sim_N r]
               @ drop (sim_N r) (cells (p_prev (ri_janus ?p))))\<rparr>"
    by (simp add: b_def q_def bootstrap_value_def Let_def keeps_janusD [OF k])
  have lp: "length (cells (p_prev (ri_janus ?p))) = sim_N r"
    by (simp add: ri_janus_probe_input length_cells_realloc)
  show "\<exists>j. cells (p_curr (ri_janus b)) ! i = to_int_cell rnd (scale (ri_janus r)) (particles r ! i) j"
    using i by (auto simp: ri ri_janus_probe_input cells_def simp del: One_nat_def)
  show "\<exists>j. cells (p_prev (ri_janus b)) ! i = to_int_cell rnd (scale (ri_janus r)) (particles q ! i) j"
    using i lp by (auto simp: ri cells_store nth_append)
qed

lemma run_steps_ready_frame:
  assumes k: "keeps_janus upd" and d: "keeps_dt upd"
  shows "step_ready r \<Longrightarrow> run_steps rnd reb_step upd fresh n r = Inr r' \<Longrightarrow>
         step_ready r' \<and> sim_N r' = sim_N r"
proof (induction n arbitrary: r)
  case 0
  then show ?case by simp
next
  case (Suc n)
  let ?a = "advance_value rnd upd (sim_dt r) (sim_N r) (scale (ri_janus r)) r"
  have ra: "step_ready ?a"
    using Suc.prems(1) k d by (rule advance_ready)
  have "run_steps rnd reb_step upd fresh n ?a = Inr r'"
    using Suc.prems(2) by (simp add: part1_ready [OF Suc.prems(1) k] and_then_Inr)
  from Suc.IH [OF ra this] show ?case
    by (simp add: advance_value_fields [OF k])
qed

lemma free_from_bootstrap:
  fixes r :: "('a::len) word reb_simulation" and rnd reb_step fresh
  assumes w: "LENGTH('a) \<le> 128" and y: "sign_symmetric rnd"
    and s: "keeps_janus reb_step" and k: "keeps_janus upd" and d: "keeps_dt upd" and z: "zero_force upd"
    and e: "epoch_start r" and a: "allocated_N (ri_janus r) \<noteq> sim_N r" and i: "i < sim_N r"
  defines "sc \<equiv> scale (ri_janus r)"
  defines "q \<equiv> reb_step (bootstrap_probe_input rnd fresh (sim_dt r) (sim_N r) (scale (ri_janus r)) r)"
  shows "\<exists>r'. run_steps rnd reb_step upd fresh (Suc n) r = Inr r' \<and> sim_N r' = sim_N r \<and>
           sim_N r \<le> length (cells (p_curr (ri_janus r'))) \<and> sim_N r \<le> length (cells (p_prev (ri_janus r'))) \<and>
           ix (cells (p_curr (ri_janus r')) ! i) = encoded rnd sc (px (particles r ! i))
              + of_nat (Suc n) * (encoded rnd sc (px (particles r ! i)) - encoded rnd sc (px (particles q ! i))) \<and>
           ix (cells (p_prev (ri_janus r')) ! i) = encoded rnd sc (px (particles q ! i))
              + of_nat (Suc n) * (encoded rnd sc (px (particles r ! i)) - encoded rnd sc (px (particles q ! i))) \<and>
           iy (cells (p_curr (ri_janus r')) ! i) = encoded rnd sc (py (particles r ! i))
              + of_nat (Suc n) * (encoded rnd sc (py (particles r ! i)) - encoded rnd sc (py (particles q ! i))) \<and>
           iy (cells (p_prev (ri_janus r')) ! i) = encoded rnd sc (py (particles q ! i))
              + of_nat (Suc n) * (encoded rnd sc (py (particles r ! i)) - encoded rnd sc (py (particles q ! i))) \<and>
           iz (cells (p_curr (ri_janus r')) ! i) = encoded rnd sc (pz (particles r ! i))
              + of_nat (Suc n) * (encoded rnd sc (pz (particles r ! i)) - encoded rnd sc (pz (particles q ! i))) \<and>
           iz (cells (p_prev (ri_janus r')) ! i) = encoded rnd sc (pz (particles q ! i))
              + of_nat (Suc n) * (encoded rnd sc (pz (particles r ! i)) - encoded rnd sc (pz (particles q ! i)))"
proof -
  let ?b = "bootstrap_value rnd reb_step fresh (sim_t r) (sim_dt r) (sim_N r) (scale (ri_janus r)) r"
  note p = part1_unready [OF s k e a, where fresh=fresh and rnd=rnd]
  have ps: "sim_N r \<le> length (particles r)" and sc0: "scale (ri_janus r) \<noteq> 0" and dt: "sim_dt r \<noteq> 0"
    using e by (simp_all add: epoch_start_def)
  note br = bootstrap_value_ready [OF s ps sc0 dt, where fresh=fresh and rnd=rnd]
  have ib: "i < sim_N ?b" using i by (simp add: br(3))
  have run: "run_steps rnd reb_step upd fresh (Suc n) r = run_steps rnd reb_step upd fresh (Suc n) ?b"
    by (simp add: p(1) part1_ready [OF p(2) k])
  obtain jc jp where c: "cells (p_curr (ri_janus ?b)) ! i = to_int_cell rnd sc (particles r ! i) jc"
    and v: "cells (p_prev (ri_janus ?b)) ! i = to_int_cell rnd sc (particles q ! i) jp"
    using bootstrap_cells_nth [OF s i, where fresh=fresh and rnd=rnd] unfolding sc_def q_def by blast
  from free_run [OF w y k d z p(2) ib, where reb_step=reb_step and fresh=fresh and n="Suc n"]
  obtain r' where r': "run_steps rnd reb_step upd fresh (Suc n) ?b = Inr r'"
    and x: "ix (cells (p_curr (ri_janus r')) ! i) = ix (cells (p_curr (ri_janus ?b)) ! i)
              + of_nat (Suc n) * (ix (cells (p_curr (ri_janus ?b)) ! i) - ix (cells (p_prev (ri_janus ?b)) ! i))"
           "ix (cells (p_prev (ri_janus r')) ! i) = ix (cells (p_prev (ri_janus ?b)) ! i)
              + of_nat (Suc n) * (ix (cells (p_curr (ri_janus ?b)) ! i) - ix (cells (p_prev (ri_janus ?b)) ! i))"
           "iy (cells (p_curr (ri_janus r')) ! i) = iy (cells (p_curr (ri_janus ?b)) ! i)
              + of_nat (Suc n) * (iy (cells (p_curr (ri_janus ?b)) ! i) - iy (cells (p_prev (ri_janus ?b)) ! i))"
           "iy (cells (p_prev (ri_janus r')) ! i) = iy (cells (p_prev (ri_janus ?b)) ! i)
              + of_nat (Suc n) * (iy (cells (p_curr (ri_janus ?b)) ! i) - iy (cells (p_prev (ri_janus ?b)) ! i))"
           "iz (cells (p_curr (ri_janus r')) ! i) = iz (cells (p_curr (ri_janus ?b)) ! i)
              + of_nat (Suc n) * (iz (cells (p_curr (ri_janus ?b)) ! i) - iz (cells (p_prev (ri_janus ?b)) ! i))"
           "iz (cells (p_prev (ri_janus r')) ! i) = iz (cells (p_prev (ri_janus ?b)) ! i)
              + of_nat (Suc n) * (iz (cells (p_curr (ri_janus ?b)) ! i) - iz (cells (p_prev (ri_janus ?b)) ! i))"
    by blast
  have fr: "step_ready r'" "sim_N r' = sim_N ?b"
    using run_steps_ready_frame [OF k d p(2) r'] by simp_all
  have len: "sim_N r' = sim_N r" "sim_N r \<le> length (cells (p_curr (ri_janus r')))"
    "sim_N r \<le> length (cells (p_prev (ri_janus r')))"
    using fr by (simp_all add: step_ready_def br(3))
  show ?thesis
    unfolding run r' using len x by (simp add: c v to_int_cell_encoded)
qed

text \<open>
  Claim C5, as amended. An instance before its first step, with a force evaluator that
  returns zero accelerations, coordinates no wider than the accumulator and a rounding
  that is symmetric in the sign: \<open>n + 1\<close> steps return without a fault. The first of
  them bootstraps: \<open>p_curr\<close> gets the encoding of the initial position and \<open>p_prev\<close> the
  encoding of the position that the probe step returns. On every axis the position of
  body \<open>i\<close> in \<open>p_curr\<close> is then the encoded initial position plus \<open>n + 1\<close> times the
  difference of these two encodings, and the increment \<open>curr - prev\<close> is still that
  difference, in the wrap-around arithmetic of the coordinates: no drift accumulates.
  The increment is the difference of two truncated positions, not the truncated product
  of scale, velocity and timestep.
\<close>

theorem free_particle_motion:
  fixes r :: "('a::len) word reb_simulation" and rnd reb_step fresh
  assumes "LENGTH('a) \<le> 128" and "sign_symmetric rnd"
    and "keeps_janus reb_step" and "keeps_janus upd" and "keeps_dt upd" and "zero_force upd"
    and "epoch_start r" and "allocated_N (ri_janus r) \<noteq> sim_N r" and "i < sim_N r"
  defines "sc \<equiv> scale (ri_janus r)"
  defines "q \<equiv> reb_step (bootstrap_probe_input rnd fresh (sim_dt r) (sim_N r) (scale (ri_janus r)) r)"
  shows "\<exists>r'. run_steps rnd reb_step upd fresh (Suc n) r = Inr r' \<and>
           ix (cells (p_curr (ri_janus r')) ! i) = encoded rnd sc (px (particles r ! i))
              + of_nat (Suc n) * (encoded rnd sc (px (particles r ! i)) - encoded rnd sc (px (particles q ! i))) \<and>
           iy (cells (p_curr (ri_janus r')) ! i) = encoded rnd sc (py (particles r ! i))
              + of_nat (Suc n) * (encoded rnd sc (py (particles r ! i)) - encoded rnd sc (py (particles q ! i))) \<and>
           iz (cells (p_curr (ri_janus r')) ! i) = encoded rnd sc (pz (particles r ! i))
              + of_nat (Suc n) * (encoded rnd sc (pz (particles r ! i)) - encoded rnd sc (pz (particles q ! i))) \<and>
           ix (cells (p_curr (ri_janus r')) ! i) - ix (cells (p_prev (ri_janus r')) ! i)
             = encoded rnd sc (px (particles r ! i)) - encoded rnd sc (px (particles q ! i)) \<and>
           iy (cells (p_curr (ri_janus r')) ! i) - iy (cells (p_prev (ri_janus r')) ! i)
             = encoded rnd sc (py (particles r ! i)) - encoded rnd sc (py (particles q ! i)) \<and>
           iz (cells (p_curr (ri_janus r')) ! i) - iz (cells (p_prev (ri_janus r')) ! i)
             = encoded rnd sc (pz (particles r ! i)) - encoded rnd sc (pz (particles q ! i))"
proof -
  from free_from_bootstrap [OF assms(1-9), where fresh=fresh and n=n, folded sc_def q_def]
  obtain r' where "run_steps rnd reb_step upd fresh (Suc n) r = Inr r'"
    "ix (cells (p_curr (ri_janus r')) ! i) = encoded rnd sc (px (particles r ! i))
       + of_nat (Suc n) * (encoded rnd sc (px (particles r ! i)) - encoded rnd sc (px (particles q ! i)))"
    "ix (cells (p_prev (ri_janus r')) ! i) = encoded rnd sc (px (particles q ! i))
       + of_nat (Suc n) * (encoded rnd sc (px (particles r ! i)) - encoded rnd sc (px (particles q ! i)))"
    "iy (cells (p_curr (ri_janus r')) ! i) = encoded rnd sc (py (particles r ! i))
       + of_nat (Suc n) * (encoded rnd sc (py (particles r ! i)) - encoded rnd sc (py (particles q ! i)))"
    "iy (cells (p_prev (ri_janus r')) ! i) = encoded rnd sc (py (particles q ! i))
       + of_nat (Suc n) * (encoded rnd sc (py (particles r ! i)) - encoded rnd sc (py (particles q ! i)))"
    "iz (cells (p_curr (ri_janus r')) ! i) = encoded rnd sc (pz (particles r ! i))
       + of_nat (Suc n) * (encoded rnd sc (pz (particles r ! i)) - encoded rnd sc (pz (particles q ! i)))"
    "iz (cells (p_prev (ri_janus r')) ! i) = encoded rnd sc (pz (particles q ! i))
       + of_nat (Suc n) * (encoded rnd sc (pz (particles r ! i)) - encoded rnd sc (pz (particles q ! i)))"
    by blast
  then show ?thesis by simp
qed

lemma unallocated_demo_unallocated:
  "allocated_N (ri_janus demo_unallocated) \<noteq> sim_N demo_unallocated" "0 < sim_N demo_unallocated"
  by (simp_all add: demo_unallocated_def)

theorem free_particle_motion_witness:
  "LENGTH(64) \<le> 128 \<and> sign_symmetric id \<and> keeps_janus demo_probe \<and> keeps_janus demo_no_force \<and>
   keeps_dt demo_no_force \<and> zero_force demo_no_force \<and> epoch_start demo_unallocated \<and>
   allocated_N (ri_janus demo_unallocated) \<noteq> sim_N demo_unallocated \<and> 0 < sim_N demo_unallocated \<and>
   (\<exists>r'. run_steps id demo_probe demo_no_force demo_fresh (Suc 99) demo_unallocated = Inr r' \<and>
           ix (cells (p_curr (ri_janus r')) ! 0) = encoded id (scale (ri_janus demo_unallocated)) (px (particles demo_unallocated ! 0))
              + of_nat (Suc 99) * (encoded id (scale (ri_janus demo_unallocated)) (px (particles demo_unallocated ! 0)) - encoded id (scale (ri_janus demo_unallocated)) (px (particles (demo_probe (bootstrap_probe_input id demo_fresh (sim_dt demo_unallocated) (sim_N demo_unallocated) (scale (ri_janus demo_unallocated)) demo_unallocated)) ! 0))) \<and>
           iy (cells (p_curr (ri_janus r')) ! 0) = encoded id (scale (ri_janus demo_unallocated)) (py (particles demo_unallocated ! 0))
              + of_nat (Suc 99) * (encoded id (scale (ri_janus demo_unallocated)) (py (particles demo_unallocated ! 0)) - encoded id (scale (ri_janus demo_unallocated)) (py (particles (demo_probe (bootstrap_probe_input id demo_fresh (sim_dt demo_unallocated) (sim_N demo_unallocated) (scale (ri_janus demo_unallocated)) demo_unallocated)) ! 0))) \<and>
           iz (cells (p_curr (ri_janus r')) ! 0) = encoded id (scale (ri_janus demo_unallocated)) (pz (particles demo_unallocated ! 0))
              + of_nat (Suc 99) * (encoded id (scale (ri_janus demo_unallocated)) (pz (particles demo_unallocated ! 0)) - encoded id (scale (ri_janus demo_unallocated)) (pz (particles (demo_probe (bootstrap_probe_input id demo_fresh (sim_dt demo_unallocated) (sim_N demo_unallocated) (scale (ri_janus demo_unallocated)) demo_unallocated)) ! 0))) \<and>
           ix (cells (p_curr (ri_janus r')) ! 0) - ix (cells (p_prev (ri_janus r')) ! 0)
             = encoded id (scale (ri_janus demo_unallocated)) (px (particles demo_unallocated ! 0)) - encoded id (scale (ri_janus demo_unallocated)) (px (particles (demo_probe (bootstrap_probe_input id demo_fresh (sim_dt demo_unallocated) (sim_N demo_unallocated) (scale (ri_janus demo_unallocated)) demo_unallocated)) ! 0)) \<and>
           iy (cells (p_curr (ri_janus r')) ! 0) - iy (cells (p_prev (ri_janus r')) ! 0)
             = encoded id (scale (ri_janus demo_unallocated)) (py (particles demo_unallocated ! 0)) - encoded id (scale (ri_janus demo_unallocated)) (py (particles (demo_probe (bootstrap_probe_input id demo_fresh (sim_dt demo_unallocated) (sim_N demo_unallocated) (scale (ri_janus demo_unallocated)) demo_unallocated)) ! 0)) \<and>
           iz (cells (p_curr (ri_janus r')) ! 0) - iz (cells (p_prev (ri_janus r')) ! 0)
             = encoded id (scale (ri_janus demo_unallocated)) (pz (particles demo_unallocated ! 0)) - encoded id (scale (ri_janus demo_unallocated)) (pz (particles (demo_probe (bootstrap_probe_input id demo_fresh (sim_dt demo_unallocated) (sim_N demo_unallocated) (scale (ri_janus demo_unallocated)) demo_unallocated)) ! 0)))"
proof -
  have "\<exists>r'. run_steps id demo_probe demo_no_force demo_fresh (Suc 99) demo_unallocated = Inr r' \<and>
           ix (cells (p_curr (ri_janus r')) ! 0) = encoded id (scale (ri_janus demo_unallocated)) (px (particles demo_unallocated ! 0))
              + of_nat (Suc 99) * (encoded id (scale (ri_janus demo_unallocated)) (px (particles demo_unallocated ! 0)) - encoded id (scale (ri_janus demo_unallocated)) (px (particles (demo_probe (bootstrap_probe_input id demo_fresh (sim_dt demo_unallocated) (sim_N demo_unallocated) (scale (ri_janus demo_unallocated)) demo_unallocated)) ! 0))) \<and>
           iy (cells (p_curr (ri_janus r')) ! 0) = encoded id (scale (ri_janus demo_unallocated)) (py (particles demo_unallocated ! 0))
              + of_nat (Suc 99) * (encoded id (scale (ri_janus demo_unallocated)) (py (particles demo_unallocated ! 0)) - encoded id (scale (ri_janus demo_unallocated)) (py (particles (demo_probe (bootstrap_probe_input id demo_fresh (sim_dt demo_unallocated) (sim_N demo_unallocated) (scale (ri_janus demo_unallocated)) demo_unallocated)) ! 0))) \<and>
           iz (cells (p_curr (ri_janus r')) ! 0) = encoded id (scale (ri_janus demo_unallocated)) (pz (particles demo_unallocated ! 0))
              + of_nat (Suc 99) * (encoded id (scale (ri_janus demo_unallocated)) (pz (particles demo_unallocated ! 0)) - encoded id (scale (ri_janus demo_unallocated)) (pz (particles (demo_probe (bootstrap_probe_input id demo_fresh (sim_dt demo_unallocated) (sim_N demo_unallocated) (scale (ri_janus demo_unallocated)) demo_unallocated)) ! 0))) \<and>
           ix (cells (p_curr (ri_janus r')) ! 0) - ix (cells (p_prev (ri_janus r')) ! 0)
             = encoded id (scale (ri_janus demo_unallocated)) (px (particles demo_unallocated ! 0)) - encoded id (scale (ri_janus demo_unallocated)) (px (particles (demo_probe (bootstrap_probe_input id demo_fresh (sim_dt demo_unallocated) (sim_N demo_unallocated) (scale (ri_janus demo_unallocated)) demo_unallocated)) ! 0)) \<and>
           iy (cells (p_curr (ri_janus r')) ! 0) - iy (cells (p_prev (ri_janus r')) ! 0)
             = encoded id (scale (ri_janus demo_unallocated)) (py (particles demo_unallocated ! 0)) - encoded id (scale (ri_janus demo_unallocated)) (py (particles (demo_probe (bootstrap_probe_input id demo_fresh (sim_dt demo_unallocated) (sim_N demo_unallocated) (scale (ri_janus demo_unallocated)) demo_unallocated)) ! 0)) \<and>
           iz (cells (p_curr (ri_janus r')) ! 0) - iz (cells (p_prev (ri_janus r')) ! 0)
             = encoded id (scale (ri_janus demo_unallocated)) (pz (particles demo_unallocated ! 0)) - encoded id (scale (ri_janus demo_unallocated)) (pz (particles (demo_probe (bootstrap_probe_input id demo_fresh (sim_dt demo_unallocated) (sim_N demo_unallocated) (scale (ri_janus demo_unallocated)) demo_unallocated)) ! 0))"
    by (rule free_particle_motion [OF length_64 sign_symmetric_id keeps_janus_demo_probe
          keeps_janus_demo_no_force keeps_dt_demo_no_force zero_force_demo_no_force
          epoch_start_demo_unallocated unallocated_demo_unallocated])
  then show ?thesis
    using length_64 sign_symmetric_id keeps_janus_demo_probe keeps_janus_demo_no_force
      keeps_dt_demo_no_force zero_force_demo_no_force epoch_start_demo_unallocated
      unallocated_demo_unallocated
    by blast
qed

lemma map_take_one: "1 \<le> length xs \<Longrightarrow> map f (take 1 xs) = [f (xs ! 0)]"
  by (cases xs) simp_all

lemma demo_slow_facts:
  "epoch_start demo_slow" "allocated_N (ri_janus demo_slow) \<noteq> sim_N demo_slow" "0 < sim_N demo_slow"
  "sim_N demo_slow = 1"
  by (simp_all add: epoch_start_def demo_slow_def demo_unallocated_def)

lemma demo_slow_encoded:
  "(encoded id (scale (ri_janus demo_slow)) (px (particles demo_slow ! 0)) :: 64 word) = 4"
  "(encoded id (scale (ri_janus demo_slow))
      (px (particles (demo_probe (bootstrap_probe_input id demo_fresh (sim_dt demo_slow) (sim_N demo_slow)
                                    (scale (ri_janus demo_slow)) demo_slow)) ! 0)) :: 64 word) = 2"
proof -
  have t: "double_to_int 4 = 4" "double_to_int (11 / 4) = 2"
    by (simp_all add: double_to_int_def)
  show "(encoded id (scale (ri_janus demo_slow)) (px (particles demo_slow ! 0)) :: 64 word) = 4"
    by (simp add: encoded_def demo_slow_def demo_unallocated_def slow_particle_def t)
  show "(encoded id (scale (ri_janus demo_slow))
      (px (particles (demo_probe (bootstrap_probe_input id demo_fresh (sim_dt demo_slow) (sim_N demo_slow)
                                    (scale (ri_janus demo_slow)) demo_slow)) ! 0)) :: 64 word) = 2"
    by (simp add: encoded_def demo_slow_def demo_unallocated_def slow_particle_def demo_probe_def
        bootstrap_probe_input_def drift_def t)
qed

text \<open>
  The claim as stated (the increment is the quantized velocity times the timestep) fails
  on \<open>demo_slow\<close>, with the probe step that drifts exactly: position 1, velocity 5/16,
  scale 4, timestep 1. The bootstrap encodes 1 as 4 and 11/16 as 2, so the first step
  takes \<open>p_curr\<close> from 4 to 6, while scale times velocity times timestep is 5/4, which
  truncates to 1.
\<close>

theorem free_increment_counterexample:
  "map_sum id (map ix \<circ> take 1 \<circ> cells \<circ> p_prev \<circ> ri_janus)
     (run_steps id demo_probe demo_no_force demo_fresh 1 demo_slow) = Inr [4] \<and>
   map_sum id (map ix \<circ> take 1 \<circ> cells \<circ> p_curr \<circ> ri_janus)
     (run_steps id demo_probe demo_no_force demo_fresh 1 demo_slow) = Inr [6] \<and>
   double_to_int (scale (ri_janus demo_slow) * pvx (particles demo_slow ! 0) * sim_dt demo_slow) = 1"
proof -
  from free_from_bootstrap [OF length_64 sign_symmetric_id keeps_janus_demo_probe
      keeps_janus_demo_no_force keeps_dt_demo_no_force zero_force_demo_no_force demo_slow_facts(1,2,3),
      where fresh=demo_fresh and n=0]
  obtain r' where r: "run_steps id demo_probe demo_no_force demo_fresh (Suc 0) demo_slow = Inr r'"
    and l: "sim_N demo_slow \<le> length (cells (p_curr (ri_janus r')))"
      "sim_N demo_slow \<le> length (cells (p_prev (ri_janus r')))"
    and c: "ix (cells (p_curr (ri_janus r')) ! 0) = 6"
    and p: "ix (cells (p_prev (ri_janus r')) ! 0) = 4"
    unfolding demo_slow_encoded by auto
  have v: "double_to_int (scale (ri_janus demo_slow) * pvx (particles demo_slow ! 0) * sim_dt demo_slow) = 1"
    by (simp add: demo_slow_def demo_unallocated_def slow_particle_def double_to_int_def)
  have l1: "1 \<le> length (cells (p_curr (ri_janus r')))" "1 \<le> length (cells (p_prev (ri_janus r')))"
    using l by (simp_all add: demo_slow_facts(4))
  have r1: "run_steps id demo_probe demo_no_force demo_fresh 1 demo_slow = Inr r'"
    using r by (simp only: One_nat_def)
  show ?thesis
    unfolding r1 by (simp add: map_take_one [OF l1(1)] map_take_one [OF l1(2)] c p v del: One_nat_def)
qed

section \<open>Reversibility\<close>

lemma and_then_assoc: "and_then (and_then m f) g = and_then m (\<lambda>v. and_then (f v) g)"
  by (cases m) (simp_all add: and_then_def)

lemma run_steps_snoc:
  "run_steps rnd st upd fr (Suc k) r = and_then (run_steps rnd st upd fr k r) (reb_integrator_janus_part1 rnd st upd fr)"
proof (induction k arbitrary: r)
  case 0
  show ?case
    by (cases "reb_integrator_janus_part1 rnd st upd fr r") (simp_all add: and_then_def)
next
  case (Suc k)
  have "run_steps rnd st upd fr (Suc (Suc k)) r
        = and_then (reb_integrator_janus_part1 rnd st upd fr r) (run_steps rnd st upd fr (Suc k))"
    by simp
  also have "\<dots> = and_then (reb_integrator_janus_part1 rnd st upd fr r)
                     (\<lambda>v. and_then (run_steps rnd st upd fr k v) (reb_integrator_janus_part1 rnd st upd fr))"
    using Suc.IH by presburger
  also have "\<dots> = and_then (run_steps rnd st upd fr (Suc k) r) (reb_integrator_janus_part1 rnd st upd fr)"
    by (simp add: and_then_assoc)
  finally show ?case .
qed

lemma there_and_back_Suc:
  assumes "reb_integrator_janus_part1 rnd st upd fr r = Inr a"
  shows "there_and_back rnd st upd fr (Suc k) r
         = and_then (there_and_back rnd st upd fr k a) (reb_integrator_janus_part1 rnd st upd fr)"
proof -
  have "there_and_back rnd st upd fr (Suc k) r
        = and_then (run_steps rnd st upd fr k a) (\<lambda>r.
          and_then (reb_integrator_janus_flip r) (\<lambda>r.
          and_then (run_steps rnd st upd fr k (r\<lparr>sim_dt := - sim_dt r\<rparr>)) (reb_integrator_janus_part1 rnd st upd fr)))"
    unfolding there_and_back_def run_steps_snoc [symmetric]
    by (simp add: assms and_then_Inr)
  then show ?thesis
    by (simp add: there_and_back_def and_then_assoc)
qed

lemma next_coord_back:
  assumes w: "LENGTH('a::len) \<le> 128" and y: "sign_symmetric rnd"
  shows "janus_next_coord rnd sc (- dt) (janus_next_coord rnd sc dt a b x) b x = (a :: 'a word)"
  unfolding janus_next_coord_eq [OF w] forcing_term_back [OF y] by simp

lemma next_position_back:
  "LENGTH('a::len) \<le> 128 \<Longrightarrow> sign_symmetric rnd \<Longrightarrow>
   next_position rnd sc (- dt) (next_position rnd sc dt a b x) b x = (a :: 'a word \<times> 'a word \<times> 'a word)"
  by (simp add: next_position_def next_coord_back)

lemma next_positions_back:
  fixes as :: "(('a::len) word \<times> 'a word \<times> 'a word) list"
  assumes "LENGTH('a) \<le> 128" "sign_symmetric rnd" "length as = length bs"
  shows "next_positions rnd sc (- dt) (next_positions rnd sc dt as bs accs) bs accs = as"
  using assms(3)
  by (intro nth_equalityI) (simp_all add: next_positions_def next_position_back [OF assms(1,2)])

lemma length_masses: "N \<le> length ps \<Longrightarrow> length (masses N ps) = N"
  by (simp add: masses_def)

lemma masses_nth: "i < N \<Longrightarrow> N \<le> length ps \<Longrightarrow> masses N ps ! i = pm (ps ! i)"
  by (simp add: masses_def)

lemma force_inputs_decoded:
  fixes cur cur' :: "('a::len) word reb_particle_int list"
  assumes l: "N \<le> length cur" "N \<le> length cur'" "N \<le> length ps" "N \<le> length ps'"
    and p: "map cell_position (take N cur) = map cell_position (take N cur')"
    and m: "masses N ps = masses N ps'"
  shows "force_inputs N (decoded_particles rnd sc N cur ps) = force_inputs N (decoded_particles rnd sc N cur' ps')"
proof -
  have c: "cell_position (cur ! i) = cell_position (cur' ! i)" if "i < N" for i
  proof -
    have "map cell_position (take N cur) ! i = map cell_position (take N cur') ! i"
      using p by simp
    then show ?thesis using that l by simp
  qed
  have q: "pm (ps ! i) = pm (ps' ! i)" if "i < N" for i
    using masses_nth [OF that l(3)] masses_nth [OF that l(4)] m by simp
  have cc: "ix (cur ! i) = ix (cur' ! i)" "iy (cur ! i) = iy (cur' ! i)" "iz (cur ! i) = iz (cur' ! i)"
    if "i < N" for i
    using c [OF that] by (simp_all add: cell_position_def)
  show ?thesis
  proof (rule nth_equalityI)
    show "length (force_inputs N (decoded_particles rnd sc N cur ps))
          = length (force_inputs N (decoded_particles rnd sc N cur' ps'))"
      using l by (simp add: force_inputs_def decoded_particles_def)
    fix i
    assume "i < length (force_inputs N (decoded_particles rnd sc N cur ps))"
    then have i: "i < N"
      using l by (simp add: force_inputs_def decoded_particles_def)
    show "force_inputs N (decoded_particles rnd sc N cur ps) ! i
          = force_inputs N (decoded_particles rnd sc N cur' ps') ! i"
      using i l by (simp add: force_inputs_def decoded_particles_def nth_append decoded_def cc q)
  qed
qed

lemma masses_decoded: "N \<le> length ps \<Longrightarrow> masses N (decoded_particles rnd sc N cur ps) = masses N ps"
  by (intro nth_equalityI) (simp_all add: masses_def decoded_particles_def decoded_def)

lemma force_by_positionD:
  "force_by_position upd \<Longrightarrow> masses (sim_N s) (particles (upd s)) = masses (sim_N s) (particles s)"
  "force_by_position upd \<Longrightarrow> sim_N s = sim_N s' \<Longrightarrow>
   force_inputs (sim_N s) (particles s) = force_inputs (sim_N s') (particles s') \<Longrightarrow>
   accelerations (sim_N s) (particles (upd s)) = accelerations (sim_N s') (particles (upd s'))"
  unfolding force_by_position_def by blast+

lemma accelerations_same:
  fixes r b :: "('a::len) word reb_simulation"
  assumes f: "force_by_position upd"
    and n: "sim_N b = sim_N r"
    and l: "sim_N r \<le> length (cells (p_curr (ri_janus r)))" "sim_N r \<le> length (cells (p_curr (ri_janus b)))"
      "sim_N r \<le> length (particles r)" "sim_N r \<le> length (particles b)"
    and p: "positions (sim_N r) (p_curr (ri_janus b)) = positions (sim_N r) (p_curr (ri_janus r))"
    and m: "masses (sim_N r) (particles b) = masses (sim_N r) (particles r)"
  shows "accelerations (sim_N r) (particles (upd (force_input rnd (sim_N r) sc b)))
         = accelerations (sim_N r) (particles (upd (force_input rnd (sim_N r) sc r)))"
proof -
  let ?N = "sim_N r"
  have "force_inputs ?N (particles (force_input rnd ?N sc b)) = force_inputs ?N (particles (force_input rnd ?N sc r))"
    unfolding force_input_fields
    using l(2,1,4,3) p m by (intro force_inputs_decoded) (simp_all add: positions_def)
  then show ?thesis
    using force_by_positionD(2) [OF f, of "force_input rnd ?N sc b" "force_input rnd ?N sc r"]
    by (simp add: force_input_fields n)
qed

lemma masses_advance:
  fixes r :: "('a::len) word reb_simulation"
  assumes r: "step_ready r" and k: "keeps_janus upd" and f: "force_by_position upd"
  shows "masses (sim_N r) (particles (advance_value rnd upd (sim_dt r) (sim_N r) (scale (ri_janus r)) r))
         = masses (sim_N r) (particles r)"
proof -
  let ?N = "sim_N r" and ?sc = "scale (ri_janus r)"
  let ?s = "force_input rnd ?N ?sc r"
  have l: "?N \<le> length (particles r)"
    using r by (simp add: step_ready_def)
  have l1: "?N \<le> length (particles (upd ?s))"
    using l by (simp add: after_force [OF k])
  have "masses ?N (particles (advance_value rnd upd (sim_dt r) ?N ?sc r)) = masses ?N (particles (upd ?s))"
    using l1 by (intro nth_equalityI) (simp_all add: masses_def advance_value_def Let_def with_velocity_def)
  also have "\<dots> = masses ?N (particles ?s)"
    using force_by_positionD(1) [OF f, of ?s] by (simp add: force_input_fields)
  also have "\<dots> = masses ?N (particles r)"
    using l by (simp add: force_input_fields masses_decoded)
  finally show ?thesis .
qed

lemma advance_flip_ready:
  fixes r :: "('a::len) word reb_simulation"
  assumes r: "step_ready r" and fr: "flip_ready r" and k: "keeps_janus upd"
  shows "flip_ready (advance_value rnd upd (sim_dt r) (sim_N r) (scale (ri_janus r)) r)"
  using r fr
  by (simp add: flip_ready_def step_ready_def advance_value_fields [OF k] cells_store
      length_next_cells_force [OF k])

lemma mirrored_flip:
  fixes r :: "('a::len) word reb_simulation"
  assumes r: "step_ready r" and fr: "flip_ready r"
  shows "mirrored r ((flip_value r)\<lparr>sim_dt := - sim_dt r\<rparr>)"
  using r fr
  by (simp add: mirrored_def step_ready_def flip_ready_def flip_value_def Let_def cells_store positions_def)

lemma mirrored_step:
  fixes r b :: "('a::len) word reb_simulation"
  assumes w: "LENGTH('a) \<le> 128" and y: "sign_symmetric rnd"
    and k: "keeps_janus upd" and d: "keeps_dt upd"
    and f: "force_by_position upd" and r: "step_ready r"
    and m: "mirrored (advance_value rnd upd (sim_dt r) (sim_N r) (scale (ri_janus r)) r) b"
  shows "mirrored r (advance_value rnd upd (sim_dt b) (sim_N b) (scale (ri_janus b)) b)"
proof -
  let ?N = "sim_N r" and ?sc = "scale (ri_janus r)" and ?dt = "sim_dt r"
  let ?a = "advance_value rnd upd ?dt ?N ?sc r"
  let ?b' = "advance_value rnd upd (- ?dt) ?N ?sc b"
  let ?P = "positions ?N (p_prev (ri_janus r))" and ?C = "positions ?N (p_curr (ri_janus r))"
  let ?A = "accelerations ?N (particles (upd (force_input rnd ?N ?sc r)))"
  have a: "sim_N ?a = ?N" "scale (ri_janus ?a) = ?sc" "sim_dt ?a = ?dt"
    by (simp_all add: advance_value_fields [OF k] advance_value_dt [OF d])
  have b: "sim_N b = ?N" "scale (ri_janus b) = ?sc" "sim_dt b = - ?dt" "step_ready b" "flip_ready b"
    and mb: "masses ?N (particles b) = masses ?N (particles ?a)"
    and pb: "positions ?N (p_prev (ri_janus b)) = positions ?N (p_curr (ri_janus ?a))"
    and cb: "positions ?N (p_curr (ri_janus b)) = positions ?N (p_prev (ri_janus ?a))"
    using m by (simp_all add: mirrored_def a)
  have lr: "?N \<le> length (particles r)" "?N \<le> length (cells (p_prev (ri_janus r)))"
    "?N \<le> length (cells (p_curr (ri_janus r)))"
    using r by (simp_all add: step_ready_def)
  have lb: "?N \<le> length (particles b)" "?N \<le> length (cells (p_curr (ri_janus b)))"
    using b(4) by (simp_all add: step_ready_def b(1))
  note pa = advance_positions [OF r k]
  note pb' = advance_positions [OF b(4) k, unfolded b(1,2,3)]
  have cb': "positions ?N (p_curr (ri_janus b)) = ?C"
    using cb pa(1) by simp
  have mb': "masses ?N (particles b) = masses ?N (particles r)"
    using mb masses_advance [OF r k f] by simp
  have acc: "accelerations ?N (particles (upd (force_input rnd ?N ?sc b))) = ?A"
    using f b(1) lr(3) lb(2) lr(1) lb(1) cb' mb' by (rule accelerations_same)
  have len: "length ?P = length ?C"
    using lr by (simp add: length_positions)
  have "positions ?N (p_curr (ri_janus ?b'))
        = next_positions rnd ?sc (- ?dt) (next_positions rnd ?sc ?dt ?P ?C ?A) ?C ?A"
    by (simp add: pb'(2) pb pa(2) cb' acc)
  also have "\<dots> = ?P"
    using w y len by (rule next_positions_back)
  finally have c': "positions ?N (p_curr (ri_janus ?b')) = ?P" .
  have p': "positions ?N (p_prev (ri_janus ?b')) = ?C"
    by (simp add: pb'(1) cb')
  have m': "masses ?N (particles ?b') = masses ?N (particles r)"
    using masses_advance [OF b(4) k f] by (simp add: b(1,2,3) mb')
  have s': "step_ready ?b'"
    using advance_ready [OF b(4) k d] by (simp add: b(1,2,3))
  have f': "flip_ready ?b'"
    using advance_flip_ready [OF b(4,5) k] by (simp add: b(1,2,3))
  have g: "sim_N ?b' = ?N" "scale (ri_janus ?b') = ?sc" "sim_dt ?b' = - ?dt"
    by (simp_all add: advance_value_fields [OF k] advance_value_dt [OF d] b(1,2,3))
  show ?thesis
    unfolding b(1,2,3) mirrored_def using g s' f' m' p' c' by simp
qed

lemma there_and_back_mirrored:
  fixes r :: "('a::len) word reb_simulation"
  assumes w: "LENGTH('a) \<le> 128" and y: "sign_symmetric rnd"
    and k: "keeps_janus upd" and d: "keeps_dt upd"
    and f: "force_by_position upd"
  shows "step_ready r \<Longrightarrow> flip_ready r \<Longrightarrow>
         \<exists>b. there_and_back rnd reb_step upd fresh n r = Inr b \<and> mirrored r b"
proof (induction n arbitrary: r)
  case 0
  have "there_and_back rnd reb_step upd fresh 0 r = Inr ((flip_value r)\<lparr>sim_dt := - sim_dt r\<rparr>)"
    by (simp add: there_and_back_def and_then_Inr flip_Inr [OF "0.prems"(2)] flip_value_def Let_def)
  then show ?case
    using mirrored_flip [OF "0.prems"] by simp
next
  case (Suc n)
  let ?a = "advance_value rnd upd (sim_dt r) (sim_N r) (scale (ri_janus r)) r"
  have p: "reb_integrator_janus_part1 rnd reb_step upd fresh r = Inr ?a"
    using Suc.prems(1) k by (rule part1_ready)
  have ra: "step_ready ?a"
    using Suc.prems(1) k d by (rule advance_ready)
  have fa: "flip_ready ?a"
    using Suc.prems k by (rule advance_flip_ready)
  from Suc.IH [OF ra fa] obtain b where b: "there_and_back rnd reb_step upd fresh n ?a = Inr b"
    and m: "mirrored ?a b"
    by blast
  have sb: "step_ready b"
    using m by (simp add: mirrored_def)
  have "there_and_back rnd reb_step upd fresh (Suc n) r
        = Inr (advance_value rnd upd (sim_dt b) (sim_N b) (scale (ri_janus b)) b)"
    by (simp add: there_and_back_Suc [OF p] b and_then_Inr part1_ready [OF sb k])
  then show ?case
    using mirrored_step [OF w y k d f Suc.prems(1) m] by simp
qed

lemma positions_flip_value:
  assumes "flip_ready b"
  shows "positions (sim_N b) (p_prev (ri_janus (flip_value b))) = positions (sim_N b) (p_curr (ri_janus b))"
    and "positions (sim_N b) (p_curr (ri_janus (flip_value b))) = positions (sim_N b) (p_prev (ri_janus b))"
  using assms by (simp_all add: flip_ready_def flip_value_def Let_def cells_store positions_def)

text \<open>
  Claim C1, as amended. For an instance whose buffers are ready, with coordinates no wider
  than the accumulator, a rounding that is symmetric in the sign and a force evaluator
  whose accelerations depend only on positions and masses: \<open>k\<close> steps, the flip, the
  negation of the timestep and \<open>k\<close> more steps return without a fault, and afterwards
  the positions in \<open>p_prev\<close> are bit for bit the
  original positions of \<open>p_curr\<close> and the positions in \<open>p_curr\<close> are the original
  positions of \<open>p_prev\<close>: both original generations are back, in exchanged roles. One
  more flip puts each of them into the buffer it started in.
\<close>

theorem backward_replay_exchanges_generations:
  fixes r :: "('a::len) word reb_simulation"
  assumes "LENGTH('a) \<le> 128" and "sign_symmetric rnd" and "keeps_janus upd" and "keeps_dt upd" and "force_by_position upd"
    and "step_ready r" and "flip_ready r"
  shows "\<exists>r' r''. there_and_back rnd reb_step upd fresh k r = Inr r' \<and>
           positions (sim_N r) (p_prev (ri_janus r')) = positions (sim_N r) (p_curr (ri_janus r)) \<and>
           positions (sim_N r) (p_curr (ri_janus r')) = positions (sim_N r) (p_prev (ri_janus r)) \<and>
           reb_integrator_janus_flip r' = Inr r'' \<and>
           positions (sim_N r) (p_prev (ri_janus r'')) = positions (sim_N r) (p_prev (ri_janus r)) \<and>
           positions (sim_N r) (p_curr (ri_janus r'')) = positions (sim_N r) (p_curr (ri_janus r))"
proof -
  from there_and_back_mirrored [OF assms, where reb_step=reb_step and fresh=fresh and n=k] obtain b
    where b: "there_and_back rnd reb_step upd fresh k r = Inr b" and m: "mirrored r b"
    by blast
  have n: "sim_N b = sim_N r" and fb: "flip_ready b"
    and p: "positions (sim_N r) (p_prev (ri_janus b)) = positions (sim_N r) (p_curr (ri_janus r))"
    and c: "positions (sim_N r) (p_curr (ri_janus b)) = positions (sim_N r) (p_prev (ri_janus r))"
    using m by (simp_all add: mirrored_def)
  have fl: "reb_integrator_janus_flip b = Inr (flip_value b)"
    using fb by (rule flip_Inr)
  show ?thesis
    using positions_flip_value [OF fb] by (simp add: b p c fl n)
qed

lemma force_by_position_demo_force: "force_by_position demo_force"
proof -
  have a: "acceleration (pull p) = (- (3 / 16) * px p, - (3 / 16) * py p, - (3 / 16) * pz p)" for p
    by (simp add: acceleration_def pull_def)
  have c: "map (\<lambda>p. acceleration (pull p)) xs = map (\<lambda>p. acceleration (pull p)) ys"
    if "map (\<lambda>p. (px p, py p, pz p, pm p)) xs = map (\<lambda>p. (px p, py p, pz p, pm p)) ys"
    for xs ys :: "reb_particle list"
  proof -
    have "map (\<lambda>q. (- (3 / 16) * fst q, - (3 / 16) * fst (snd q), - (3 / 16) * fst (snd (snd q))))
            (map (\<lambda>p. (px p, py p, pz p, pm p)) xs)
          = map (\<lambda>q. (- (3 / 16) * fst q, - (3 / 16) * fst (snd q), - (3 / 16) * fst (snd (snd q))))
            (map (\<lambda>p. (px p, py p, pz p, pm p)) ys)"
      by (simp only: that)
    then show ?thesis by (simp add: a comp_def)
  qed
  have m: "masses (sim_N s) (particles (demo_force s)) = masses (sim_N s) (particles s)" for s
    by (simp add: demo_force_def masses_def take_map pull_def)
  have f: "accelerations (sim_N s) (particles (demo_force s))
           = accelerations (sim_N s') (particles (demo_force s'))"
    if "sim_N s = sim_N s'"
      "force_inputs (sim_N s) (particles s) = force_inputs (sim_N s') (particles s')" for s s'
  proof -
    have "map (\<lambda>p. acceleration (pull p)) (take (sim_N s) (particles s))
          = map (\<lambda>p. acceleration (pull p)) (take (sim_N s') (particles s'))"
      using that(2) unfolding force_inputs_def by (rule c)
    then show ?thesis
      by (simp add: accelerations_def demo_force_def take_map comp_def)
  qed
  show ?thesis
    unfolding force_by_position_def using m f by blast
qed

theorem backward_replay_exchanges_generations_witness:
  "LENGTH(64) \<le> 128 \<and> sign_symmetric id \<and> keeps_janus demo_force \<and> keeps_dt demo_force \<and>
   force_by_position demo_force \<and> step_ready demo_sim \<and> flip_ready demo_sim \<and>
   (\<exists>r' r''. there_and_back id demo_probe demo_force demo_fresh 5 demo_sim = Inr r' \<and>
           positions (sim_N demo_sim) (p_prev (ri_janus r')) = positions (sim_N demo_sim) (p_curr (ri_janus demo_sim)) \<and>
           positions (sim_N demo_sim) (p_curr (ri_janus r')) = positions (sim_N demo_sim) (p_prev (ri_janus demo_sim)) \<and>
           reb_integrator_janus_flip r' = Inr r'' \<and>
           positions (sim_N demo_sim) (p_prev (ri_janus r'')) = positions (sim_N demo_sim) (p_prev (ri_janus demo_sim)) \<and>
           positions (sim_N demo_sim) (p_curr (ri_janus r'')) = positions (sim_N demo_sim) (p_curr (ri_janus demo_sim)))"
  using backward_replay_exchanges_generations [OF length_64 sign_symmetric_id keeps_janus_demo_force
      keeps_dt_demo_force force_by_position_demo_force step_ready_demo_sim flip_ready_demo,
      where reb_step=demo_probe and fresh=demo_fresh and k=5]
    length_64 sign_symmetric_id keeps_janus_demo_force keeps_dt_demo_force force_by_position_demo_force
    step_ready_demo_sim flip_ready_demo
  by blast

text \<open>
  The claim as stated (each buffer ends with its own original positions) fails on
  \<open>demo_sim\<close> with \<open>k = 1\<close>: \<open>p_curr\<close> starts with position \<open>(4, 0, 0)\<close> and ends with
  \<open>(4, - 4, 0)\<close>, the original position of \<open>p_prev\<close>.
\<close>

theorem backward_replay_counterexample:
  "map_sum id (positions 1 \<circ> p_curr \<circ> ri_janus)
     (there_and_back id demo_probe demo_force demo_fresh 1 demo_sim) = Inr [(4, - 4, 0)] \<and>
   positions 1 (p_curr (ri_janus demo_sim)) = [(4, 0, 0)]"
proof -
  from there_and_back_mirrored [OF length_64 sign_symmetric_id keeps_janus_demo_force keeps_dt_demo_force
      force_by_position_demo_force step_ready_demo_sim flip_ready_demo,
      where reb_step=demo_probe and fresh=demo_fresh and n=1]
  obtain b where b: "there_and_back id demo_probe demo_force demo_fresh 1 demo_sim = Inr b"
    and m: "mirrored demo_sim b"
    by blast
  have "positions 1 (p_curr (ri_janus b)) = positions 1 (p_prev (ri_janus demo_sim))"
    using m by (simp add: mirrored_def demo_sim_fields del: One_nat_def)
  moreover have "positions 1 (p_prev (ri_janus demo_sim)) = [(4, - 4, 0)]"
    "positions 1 (p_curr (ri_janus demo_sim)) = [(4, 0, 0)]"
    by (simp_all add: positions_def demo_sim_fields cell_position_def cell6_def)
  ultimately show ?thesis
    by (simp add: b del: One_nat_def)
qed

end
